theory Spec2Isabelle
  imports Main "HOL-Library.Multiset"
begin

section \<open>Values, errors and the model package\<close>

text \<open>
  The storage layer of the song service (package \<open>storage\<close>) talks to a PostgreSQL
  backend through \<open>database/sql\<close>. Go's \<open>error\<close> interface is a datatype here: the two
  sentinels the code compares against (\<open>sql.ErrNoRows\<close> and \<open>storage.ErrSongNotFound\<close>),
  the sentinels of the two other client libraries (\<open>gorm.ErrRecordNotFound\<close>,
  \<open>pgx.ErrNoRows\<close>), an error made from a message (\<open>errors.New\<close>, \<open>fmt.Errorf\<close> without
  \<open>%w\<close>), a failure reported by the backend, and \<open>fmt.Errorf("...%w", err)\<close>, which wraps
  an error behind a message prefix. A Go \<open>error\<close> that may be \<open>nil\<close> is an \<open>error option\<close>.
\<close>

datatype error =
    ErrNoRows
  | ErrSongNotFound
  | ErrRecordNotFound
  | PgxErrNoRows
  | ErrorString string
  | BackendErr string
  | Wrapped string error

text \<open>\<open>errors.Is\<close>: the error itself or an error it wraps is the target.\<close>

fun errors_Is :: "error \<Rightarrow> error \<Rightarrow> bool" where
  "errors_Is (Wrapped msg e) target = (Wrapped msg e = target \<or> errors_Is e target)"
| "errors_Is e target = (e = target)"

text \<open>\<open>errors.Is\<close> on an error that may be \<open>nil\<close>.\<close>

definition errors_Is_nil :: "error option \<Rightarrow> error \<Rightarrow> bool" where
  "errors_Is_nil err target = (case err of None \<Rightarrow> False | Some e \<Rightarrow> errors_Is e target)"

text \<open>
  A \<open>time.Time\<close> is kept in its textual form. The values that travel between the program
  and the driver (\<open>interface{}\<close> arguments, scanned columns) are strings, integers (the
  driver sends every Go integer as a 64-bit integer) and times.
\<close>

datatype time = Time string

datatype sql_value = VStr string | VInt int | VTime time

text \<open>
  Modelled from the spec: package \<open>em4/internal/model\<close> is not among the sources. \<open>Song\<close>
  has the fields that \<open>AddSong\<close>, \<open>GetSong\<close> and the tests read and write; \<open>SongUpdate\<close> is
  the sparse patch with group, name, link, release-date string and the mapping from verse
  number to replacement text. Its fields carry the prefix \<open>upd_\<close> because \<open>Song\<close> has
  fields of the same names.

  \<open>Verses\<close> is a Go \<open>map[uint]string\<close>. It is an association list with distinct keys, in
  the order in which the \<open>range\<close> loop of this run visits the entries; another run of the
  same map is another permutation of the list.
\<close>

record Song =
  ID :: nat
  Group :: string
  Name :: string
  Link :: string
  ReleaseDate :: time
  InsertedAt :: time

record SongUpdate =
  upd_Group :: string
  upd_Name :: string
  upd_Link :: string
  upd_ReleaseDate :: string
  Verses :: "(nat \<times> string) list"

definition zero_time :: time where
  "zero_time = Time ''''"

definition zero_Song :: Song where
  "zero_Song = \<lparr>ID = 0, Group = '''', Name = '''', Link = '''',
                 ReleaseDate = zero_time, InsertedAt = zero_time\<rparr>"

section \<open>The backend\<close>

text \<open>
  The relational backend is the environment of the program. Its tables are
  \<open>songs(id, group_name, name, link, release_date, inserted_at)\<close> and
  \<open>lyrics(song_id, verse_number, text)\<close>; \<open>id_seq\<close> is the sequence behind \<open>songs.id\<close>, which
  a rollback does not reset; \<open>clock\<close> is what \<open>NOW()\<close> returns. What the schema does to
  dependent \<open>lyrics\<close> rows when a song is deleted, and its uniqueness constraints, are not
  part of the statements' meaning here: a statement that the real backend rejects is one
  of the failures of \<open>faults\<close>.

  \<open>faults\<close> is the script of the backend's failures: every call into the driver
  (\<open>Begin\<close>, \<open>Exec\<close>, \<open>QueryRow(...).Scan\<close>, \<open>RowsAffected\<close>, \<open>Commit\<close>, \<open>Rollback\<close>) takes the
  next entry; \<open>Some msg\<close> makes the call fail with that message and without effect on the
  tables, \<open>None\<close> lets it proceed; when the script is used up every call proceeds. A
  property proved for every state is thereby proved for every pattern of failures.
\<close>

record songs_row =
  s_id :: int
  s_group_name :: string
  s_name :: string
  s_link :: string
  s_release_date :: time
  s_inserted_at :: time

record lyrics_row =
  l_song_id :: int
  l_verse_number :: int
  l_text :: string

record backend =
  songs :: "songs_row list"
  lyrics :: "lyrics_row list"
  id_seq :: nat
  clock :: time
  faults :: "string option list"

definition next_fault :: "backend \<Rightarrow> string option \<times> backend" where
  "next_fault s = (case faults s of [] \<Rightarrow> (None, s) | f # fs \<Rightarrow> (f, s\<lparr>faults := fs\<rparr>))"

text \<open>The outcome the script holds for the \<open>k\<close>-th call from now (counted from 0).\<close>

definition fault_at :: "backend \<Rightarrow> nat \<Rightarrow> string option" where
  "fault_at s k = (if k < length (faults s) then faults s ! k else None)"

subsection \<open>Reading a statement\<close>

text \<open>
  The backend reads a statement as blank-separated words, so the line breaks and
  indentation of the Go raw string literals do not matter. It knows the fixed statements
  of the program and \<open>UPDATE songs SET c = $i, ... WHERE id = $n RETURNING id\<close> with any
  list of assignments.
\<close>

definition is_space :: "char \<Rightarrow> bool" where
  "is_space c = (c = CHR '' '' \<or> c = CHR 0x0A \<or> c = CHR 0x09 \<or> c = CHR 0x0D)"

fun split_words :: "string \<Rightarrow> string list" where
  "split_words [] = [[]]"
| "split_words (c # cs) =
     (if is_space c then [] # split_words cs
      else (case split_words cs of [] \<Rightarrow> [[c]] | w # ws \<Rightarrow> (c # w) # ws))"

definition sql_words :: "string \<Rightarrow> string list" where
  "sql_words q = filter (\<lambda>w. w \<noteq> []) (split_words q)"

text \<open>The value of a decimal digit: its position among the ten digits.\<close>

fun position :: "char \<Rightarrow> string \<Rightarrow> nat option" where
  "position c [] = None"
| "position c (d # ds) = (if c = d then Some 0 else map_option Suc (position c ds))"

definition digit_val :: "char \<Rightarrow> nat option" where
  "digit_val c = position c ''0123456789''"

fun parse_digits :: "nat \<Rightarrow> string \<Rightarrow> nat option" where
  "parse_digits acc [] = Some acc"
| "parse_digits acc (c # cs) =
     (case digit_val c of None \<Rightarrow> None | Some d \<Rightarrow> parse_digits (10 * acc + d) cs)"

text \<open>A positional parameter \<open>$i\<close>, \<open>i\<close> at least 1.\<close>

fun parse_param :: "string \<Rightarrow> nat option" where
  "parse_param [] = None"
| "parse_param (c # ds) =
     (if c = CHR ''$'' \<and> ds \<noteq> [] then
        (case parse_digits 0 ds of None \<Rightarrow> None
         | Some i \<Rightarrow> if i = 0 then None else Some i)
      else None)"

datatype statement =
    InsertSong
  | InsertLyrics
  | DeleteSongById
  | SelectSongById
  | SelectIdById
  | UpdateVerse
  | UpdateSongs "(string \<times> nat) list" nat

text \<open>
  The assignments of \<open>UPDATE songs SET\<close>: \<open>column = $i,\<close> goes on, \<open>column = $i\<close> without the
  comma is the last one and \<open>WHERE id = $n RETURNING id\<close> must follow.
\<close>

fun parse_assignments :: "string list \<Rightarrow> ((string \<times> nat) list \<times> nat) option" where
  "parse_assignments (column # eq # p # ws) =
     (if eq \<noteq> ''='' \<or> p = [] then None
      else if last p = CHR '','' then
        (case parse_param (butlast p) of None \<Rightarrow> None
         | Some i \<Rightarrow>
            (case parse_assignments ws of None \<Rightarrow> None
             | Some (as, n) \<Rightarrow> Some ((column, i) # as, n)))
      else
        (case parse_param p of None \<Rightarrow> None
         | Some i \<Rightarrow>
            (case ws of
               [w1, w2, w3, pn, w5, w6] \<Rightarrow>
                 (if w1 = ''WHERE'' \<and> w2 = ''id'' \<and> w3 = ''='' \<and> w5 = ''RETURNING'' \<and> w6 = ''id''
                  then (case parse_param pn of None \<Rightarrow> None | Some n \<Rightarrow> Some ([(column, i)], n))
                  else None)
             | _ \<Rightarrow> None)))"
| "parse_assignments ws = None"

definition parse_statement :: "string \<Rightarrow> statement option" where
  "parse_statement q =
    (let ws = sql_words q in
     if ws = [''INSERT'', ''INTO'', ''songs'', ''(group_name,'', ''name,'', ''link,'',
              ''release_date,'', ''inserted_at)'', ''VALUES'', ''($1,'', ''$2,'', ''$3,'', ''$4,'',
              ''NOW())'', ''RETURNING'', ''id'']
     then Some InsertSong
     else if ws = [''INSERT'', ''INTO'', ''lyrics'', ''(song_id,'', ''verse_number,'', ''text)'',
              ''VALUES'', ''($1,'', ''$2,'', ''$3)'']
     then Some InsertLyrics
     else if ws = [''DELETE'', ''FROM'', ''songs'', ''WHERE'', ''id'', ''='', ''$1'']
     then Some DeleteSongById
     else if ws = [''SELECT'', ''id,'', ''group_name,'', ''name,'', ''link,'', ''release_date,'',
              ''inserted_at'', ''FROM'', ''songs'', ''WHERE'', ''id'', ''='', ''$1'']
     then Some SelectSongById
     else if ws = [''SELECT'', ''id'', ''FROM'', ''songs'', ''WHERE'', ''id'', ''='', ''$1'']
     then Some SelectIdById
     else if ws = [''UPDATE'', ''lyrics'', ''SET'', ''text'', ''='', ''$1'', ''WHERE'', ''song_id'',
              ''='', ''$2'', ''AND'', ''verse_number'', ''='', ''$3'']
     then Some UpdateVerse
     else if take 3 ws = [''UPDATE'', ''songs'', ''SET'']
     then (case parse_assignments (drop 3 ws) of None \<Rightarrow> None
           | Some (as, n) \<Rightarrow> Some (UpdateSongs as n))
     else None)"

subsection \<open>Running a statement\<close>

text \<open>
  A statement run on the tables gives the rows it returns and the number of rows it
  affected, or fails (wrong number or types of arguments, an unknown column) and leaves
  the tables as they were.
\<close>

type_synonym sql_rows = "sql_value list list"

definition bad_statement :: "backend \<Rightarrow> (error + sql_rows \<times> nat) \<times> backend" where
  "bad_statement s = (Inl (BackendErr ''pq: invalid statement or arguments''), s)"

definition row_values :: "songs_row \<Rightarrow> sql_value list" where
  "row_values r = [VInt (s_id r), VStr (s_group_name r), VStr (s_name r), VStr (s_link r),
                   VTime (s_release_date r), VTime (s_inserted_at r)]"

definition run_InsertSong :: "sql_value list \<Rightarrow> backend \<Rightarrow> (error + sql_rows \<times> nat) \<times> backend" where
  "run_InsertSong args s =
    (case args of
       [VStr g, VStr n, VStr l, VTime rd] \<Rightarrow>
         (let i = int (id_seq s) + 1;
              r = \<lparr>s_id = i, s_group_name = g, s_name = n, s_link = l,
                   s_release_date = rd, s_inserted_at = clock s\<rparr>
          in (Inr ([[VInt i]], 1), s\<lparr>songs := songs s @ [r], id_seq := id_seq s + 1\<rparr>))
     | _ \<Rightarrow> bad_statement s)"

definition run_InsertLyrics :: "sql_value list \<Rightarrow> backend \<Rightarrow> (error + sql_rows \<times> nat) \<times> backend" where
  "run_InsertLyrics args s =
    (case args of
       [VInt sid, VInt vn, VStr t] \<Rightarrow>
         (Inr ([], 1),
          s\<lparr>lyrics := lyrics s @ [\<lparr>l_song_id = sid, l_verse_number = vn, l_text = t\<rparr>]\<rparr>)
     | _ \<Rightarrow> bad_statement s)"

definition run_DeleteSongById :: "sql_value list \<Rightarrow> backend \<Rightarrow> (error + sql_rows \<times> nat) \<times> backend" where
  "run_DeleteSongById args s =
    (case args of
       [VInt i] \<Rightarrow>
         (Inr ([], length (filter (\<lambda>r. s_id r = i) (songs s))),
          s\<lparr>songs := filter (\<lambda>r. s_id r \<noteq> i) (songs s)\<rparr>)
     | _ \<Rightarrow> bad_statement s)"

definition run_SelectSongById :: "sql_value list \<Rightarrow> backend \<Rightarrow> (error + sql_rows \<times> nat) \<times> backend" where
  "run_SelectSongById args s =
    (case args of
       [VInt i] \<Rightarrow> (Inr (map row_values (filter (\<lambda>r. s_id r = i) (songs s)), 0), s)
     | _ \<Rightarrow> bad_statement s)"

definition run_SelectIdById :: "sql_value list \<Rightarrow> backend \<Rightarrow> (error + sql_rows \<times> nat) \<times> backend" where
  "run_SelectIdById args s =
    (case args of
       [VInt i] \<Rightarrow> (Inr (map (\<lambda>r. [VInt (s_id r)]) (filter (\<lambda>r. s_id r = i) (songs s)), 0), s)
     | _ \<Rightarrow> bad_statement s)"

definition set_verse_text :: "int \<Rightarrow> int \<Rightarrow> string \<Rightarrow> lyrics_row list \<Rightarrow> lyrics_row list" where
  "set_verse_text sid vn t ls =
     map (\<lambda>l. if l_song_id l = sid \<and> l_verse_number l = vn then l\<lparr>l_text := t\<rparr> else l) ls"

definition run_UpdateVerse :: "sql_value list \<Rightarrow> backend \<Rightarrow> (error + sql_rows \<times> nat) \<times> backend" where
  "run_UpdateVerse args s =
    (case args of
       [VStr t, VInt sid, VInt vn] \<Rightarrow>
         (Inr ([], length (filter (\<lambda>l. l_song_id l = sid \<and> l_verse_number l = vn) (lyrics s))),
          s\<lparr>lyrics := set_verse_text sid vn t (lyrics s)\<rparr>)
     | _ \<Rightarrow> bad_statement s)"

text \<open>The argument behind \<open>$i\<close>.\<close>

definition param :: "sql_value list \<Rightarrow> nat \<Rightarrow> sql_value option" where
  "param args i = (if 1 \<le> i \<and> i \<le> length args then Some (args ! (i - 1)) else None)"

definition set_column :: "string \<Rightarrow> sql_value \<Rightarrow> (songs_row \<Rightarrow> songs_row) option" where
  "set_column column v =
    (if column = ''group_name'' then
       (case v of VStr x \<Rightarrow> Some (\<lambda>r. r\<lparr>s_group_name := x\<rparr>) | _ \<Rightarrow> None)
     else if column = ''name'' then
       (case v of VStr x \<Rightarrow> Some (\<lambda>r. r\<lparr>s_name := x\<rparr>) | _ \<Rightarrow> None)
     else if column = ''link'' then
       (case v of VStr x \<Rightarrow> Some (\<lambda>r. r\<lparr>s_link := x\<rparr>) | _ \<Rightarrow> None)
     else if column = ''release_date'' then
       (case v of VStr x \<Rightarrow> Some (\<lambda>r. r\<lparr>s_release_date := Time x\<rparr>)
        | VTime x \<Rightarrow> Some (\<lambda>r. r\<lparr>s_release_date := x\<rparr>)
        | _ \<Rightarrow> None)
     else None)"

fun assignments :: "(string \<times> nat) list \<Rightarrow> sql_value list \<Rightarrow> (songs_row \<Rightarrow> songs_row) option" where
  "assignments [] args = Some (\<lambda>r. r)"
| "assignments ((column, i) # as) args =
     (case param args i of None \<Rightarrow> None
      | Some v \<Rightarrow>
         (case set_column column v of None \<Rightarrow> None
          | Some f \<Rightarrow>
             (case assignments as args of None \<Rightarrow> None
              | Some g \<Rightarrow> Some (\<lambda>r. g (f r)))))"

definition run_UpdateSongs ::
  "(string \<times> nat) list \<Rightarrow> nat \<Rightarrow> sql_value list \<Rightarrow> backend \<Rightarrow> (error + sql_rows \<times> nat) \<times> backend" where
  "run_UpdateSongs as n args s =
    (case param args n of
       Some (VInt i) \<Rightarrow>
         (case assignments as args of None \<Rightarrow> bad_statement s
          | Some f \<Rightarrow>
             (Inr (map (\<lambda>r. [VInt (s_id r)]) (filter (\<lambda>r. s_id r = i) (songs s)),
                   length (filter (\<lambda>r. s_id r = i) (songs s))),
              s\<lparr>songs := map (\<lambda>r. if s_id r = i then f r else r) (songs s)\<rparr>))
     | _ \<Rightarrow> bad_statement s)"

fun run_statement :: "statement \<Rightarrow> sql_value list \<Rightarrow> backend \<Rightarrow> (error + sql_rows \<times> nat) \<times> backend" where
  "run_statement InsertSong args s = run_InsertSong args s"
| "run_statement InsertLyrics args s = run_InsertLyrics args s"
| "run_statement DeleteSongById args s = run_DeleteSongById args s"
| "run_statement SelectSongById args s = run_SelectSongById args s"
| "run_statement SelectIdById args s = run_SelectIdById args s"
| "run_statement UpdateVerse args s = run_UpdateVerse args s"
| "run_statement (UpdateSongs as n) args s = run_UpdateSongs as n args s"

text \<open>One round trip: the script's next entry, then the statement.\<close>

definition round_trip :: "string \<Rightarrow> sql_value list \<Rightarrow> backend \<Rightarrow> (error + sql_rows \<times> nat) \<times> backend" where
  "round_trip query args s =
    (case next_fault s of
       (Some msg, s1) \<Rightarrow> (Inl (BackendErr msg), s1)
     | (None, s1) \<Rightarrow>
         (case parse_statement query of
            None \<Rightarrow> (Inl (BackendErr ''pq: syntax error''), s1)
          | Some st \<Rightarrow> run_statement st args s1))"

section \<open>The driver interface\<close>

text \<open>
  \<open>database/sql\<close> as the program uses it. A \<open>*sql.Row\<close> is the deferred error or the first
  row of the result (\<open>sql.ErrNoRows\<close> when the result is empty); \<open>Scan\<close> stores the row's
  columns in the variables it is given and leaves them as they were when it returns an
  error. A \<open>sql.Result\<close> is the number of affected rows, which \<open>RowsAffected\<close> reads in a
  call of its own.
\<close>

type_synonym Row = "error + sql_value list"

definition db_QueryRow :: "string \<Rightarrow> sql_value list \<Rightarrow> backend \<Rightarrow> Row \<times> backend" where
  "db_QueryRow query args s =
    (case round_trip query args s of
       (Inl err, s1) \<Rightarrow> (Inl err, s1)
     | (Inr (rows, n), s1) \<Rightarrow>
         (case rows of [] \<Rightarrow> (Inl ErrNoRows, s1) | r # rs \<Rightarrow> (Inr r, s1)))"

definition db_Exec :: "string \<Rightarrow> sql_value list \<Rightarrow> backend \<Rightarrow> (error + nat) \<times> backend" where
  "db_Exec query args s =
    (case round_trip query args s of
       (Inl err, s1) \<Rightarrow> (Inl err, s1)
     | (Inr (rows, n), s1) \<Rightarrow> (Inr n, s1))"

definition RowsAffected :: "nat \<Rightarrow> backend \<Rightarrow> (error + nat) \<times> backend" where
  "RowsAffected result s =
    (case next_fault s of
       (Some msg, s1) \<Rightarrow> (Inl (BackendErr msg), s1)
     | (None, s1) \<Rightarrow> (Inr result, s1))"

definition Scan_id :: "Row \<Rightarrow> nat \<Rightarrow> nat \<times> error option" where
  "Scan_id row dest =
    (case row of
       Inl err \<Rightarrow> (dest, Some err)
     | Inr [VInt i] \<Rightarrow>
         (if 0 \<le> i then (nat i, None)
          else (dest, Some (BackendErr ''sql: Scan error: negative value for uint'')))
     | Inr _ \<Rightarrow> (dest, Some (BackendErr ''sql: Scan error'')))"

definition Scan_Song :: "Row \<Rightarrow> Song \<Rightarrow> Song \<times> error option" where
  "Scan_Song row dest =
    (case row of
       Inl err \<Rightarrow> (dest, Some err)
     | Inr [VInt i, VStr g, VStr n, VStr l, VTime rd, VTime ia] \<Rightarrow>
         (if 0 \<le> i
          then (\<lparr>ID = nat i, Group = g, Name = n, Link = l, ReleaseDate = rd, InsertedAt = ia\<rparr>,
                None)
          else (dest, Some (BackendErr ''sql: Scan error: negative value for uint'')))
     | Inr _ \<Rightarrow> (dest, Some (BackendErr ''sql: Scan error'')))"

text \<open>
  A transaction. \<open>Begin\<close> remembers the tables; the statements of the transaction work on
  the tables of the state; \<open>Commit\<close> keeps them, and \<open>Rollback\<close>, a failed \<open>Commit\<close> and a
  failed \<open>Rollback\<close> (the backend drops a transaction whose connection is lost) put the
  remembered tables back. The sequence \<open>id_seq\<close> is never put back.
\<close>

record Tx =
  tx_songs :: "songs_row list"
  tx_lyrics :: "lyrics_row list"

definition restore :: "Tx \<Rightarrow> backend \<Rightarrow> backend" where
  "restore tx s = s\<lparr>songs := tx_songs tx, lyrics := tx_lyrics tx\<rparr>"

definition db_Begin :: "backend \<Rightarrow> (error + Tx) \<times> backend" where
  "db_Begin s =
    (case next_fault s of
       (Some msg, s1) \<Rightarrow> (Inl (BackendErr msg), s1)
     | (None, s1) \<Rightarrow> (Inr \<lparr>tx_songs = songs s1, tx_lyrics = lyrics s1\<rparr>, s1))"

definition tx_QueryRow :: "Tx \<Rightarrow> string \<Rightarrow> sql_value list \<Rightarrow> backend \<Rightarrow> Row \<times> backend" where
  "tx_QueryRow tx query args s = db_QueryRow query args s"

definition tx_Exec :: "Tx \<Rightarrow> string \<Rightarrow> sql_value list \<Rightarrow> backend \<Rightarrow> (error + nat) \<times> backend" where
  "tx_Exec tx query args s = db_Exec query args s"

definition tx_Commit :: "Tx \<Rightarrow> backend \<Rightarrow> error option \<times> backend" where
  "tx_Commit tx s =
    (case next_fault s of
       (Some msg, s1) \<Rightarrow> (Some (BackendErr msg), restore tx s1)
     | (None, s1) \<Rightarrow> (None, s1))"

definition tx_Rollback :: "Tx \<Rightarrow> backend \<Rightarrow> error option \<times> backend" where
  "tx_Rollback tx s =
    (case next_fault s of
       (Some msg, s1) \<Rightarrow> (Some (BackendErr msg), restore tx s1)
     | (None, s1) \<Rightarrow> (None, restore tx s1))"

text \<open>
  The two other client libraries, on the same backend. \<open>pgxpool\<close>'s \<open>QueryRow(...).Scan\<close>
  reports an empty result as \<open>pgx.ErrNoRows\<close>. \<open>gorm\<close>'s \<open>First(&song, id)\<close> selects the row
  with that primary key, fills \<open>song\<close> from it and reports an empty result as
  \<open>gorm.ErrRecordNotFound\<close>; it maps the columns to the fields as the row mapper of
  \<open>GetSong\<close> does.
\<close>

definition pgx_QueryRow :: "string \<Rightarrow> sql_value list \<Rightarrow> backend \<Rightarrow> Row \<times> backend" where
  "pgx_QueryRow query args s =
    (case round_trip query args s of
       (Inl err, s1) \<Rightarrow> (Inl err, s1)
     | (Inr (rows, n), s1) \<Rightarrow>
         (case rows of [] \<Rightarrow> (Inl PgxErrNoRows, s1) | r # rs \<Rightarrow> (Inr r, s1)))"

definition gorm_First :: "Song \<Rightarrow> nat \<Rightarrow> backend \<Rightarrow> (Song \<times> error option) \<times> backend" where
  "gorm_First dest key s =
    (case next_fault s of
       (Some msg, s1) \<Rightarrow> ((dest, Some (BackendErr msg)), s1)
     | (None, s1) \<Rightarrow>
         (case filter (\<lambda>r. s_id r = int key) (songs s1) of
            [] \<Rightarrow> ((dest, Some ErrRecordNotFound), s1)
          | r # rs \<Rightarrow> (Scan_Song (Inr (row_values r)) dest, s1)))"

section \<open>The storage operations\<close>

text \<open>
  \<open>WithTransaction\<close>. The unit of work \<open>fn\<close> is a closure: besides the transaction it
  reads and writes variables of its caller, which are the component \<open>'v\<close> here. In the
  failure branch the source assigns the result of \<open>tx.Rollback()\<close> to the variable \<open>err\<close>
  of the \<open>if\<close> statement, tests it and returns it on both paths; the model binds \<open>err\<close>
  again in the same way.
\<close>

definition WithTransaction ::
  "(Tx \<Rightarrow> 'v \<Rightarrow> backend \<Rightarrow> error option \<times> 'v \<times> backend) \<Rightarrow> 'v \<Rightarrow> backend
     \<Rightarrow> error option \<times> 'v \<times> backend" where
  "WithTransaction fn v s =
    (case db_Begin s of
       (Inl err, s1) \<Rightarrow> (Some err, v, s1)
     | (Inr tx, s1) \<Rightarrow>
         (case fn tx v s1 of
            (Some err, v2, s2) \<Rightarrow>
              (case tx_Rollback tx s2 of
                 (err, s3) \<Rightarrow> if err \<noteq> None then (err, v2, s3) else (err, v2, s3))
          | (None, v2, s2) \<Rightarrow>
              (case tx_Commit tx s2 of
                 (Some err, s3) \<Rightarrow> (Some err, v2, s3)
               | (None, s3) \<Rightarrow> (None, v2, s3))))"

definition sql_insert_song :: string where
  "sql_insert_song =
     ''INSERT INTO songs (group_name, name, link, release_date, inserted_at) '' @ [CHR 0x0A]
     @ ''             VALUES ($1, $2, $3, $4, NOW()) '' @ [CHR 0x0A]
     @ ''             RETURNING id''"

definition sql_insert_lyrics :: string where
  "sql_insert_lyrics =
     ''INSERT INTO lyrics (song_id, verse_number, text) '' @ [CHR 0x0A]
     @ ''                 VALUES ($1, $2, $3)''"

definition sql_delete_song :: string where
  "sql_delete_song = ''DELETE FROM songs WHERE id = $1''"

definition sql_select_song :: string where
  "sql_select_song =
     ''SELECT id, group_name, name, link, release_date, inserted_at '' @ [CHR 0x0A]
     @ ''         FROM songs '' @ [CHR 0x0A]
     @ ''         WHERE id = $1''"

definition sql_select_id :: string where
  "sql_select_id = ''SELECT id FROM songs WHERE id = $1''"

text \<open>
  \<open>AddSong\<close>. \<open>insert_verses\<close> is the \<open>range\<close> loop over \<open>verses\<close> with its index \<open>i\<close>;
  \<open>AddSong_fn\<close> is the closure given to \<open>WithTransaction\<close>, which writes the captured
  variable \<open>songID\<close>.
\<close>

fun insert_verses :: "Tx \<Rightarrow> nat \<Rightarrow> int \<Rightarrow> string list \<Rightarrow> backend \<Rightarrow> error option \<times> backend" where
  "insert_verses tx songID i [] s = (None, s)"
| "insert_verses tx songID i (verse # verses) s =
     (case tx_Exec tx sql_insert_lyrics [VInt (int songID), VInt (i + 1), VStr verse] s of
        (Inl err, s1) \<Rightarrow> (Some err, s1)
      | (Inr result, s1) \<Rightarrow> insert_verses tx songID (i + 1) verses s1)"

definition AddSong_fn ::
  "Song \<Rightarrow> string list \<Rightarrow> Tx \<Rightarrow> nat \<Rightarrow> backend \<Rightarrow> error option \<times> nat \<times> backend" where
  "AddSong_fn song verses tx songID s =
    (case tx_QueryRow tx sql_insert_song
            [VStr (Group song), VStr (Name song), VStr (Link song), VTime (ReleaseDate song)] s of
       (row, s1) \<Rightarrow>
         (case Scan_id row songID of
            (songID, Some err) \<Rightarrow> (Some err, songID, s1)
          | (songID, None) \<Rightarrow>
              (case insert_verses tx songID 0 verses s1 of
                 (err, s2) \<Rightarrow> (err, songID, s2))))"

definition AddSong :: "Song \<Rightarrow> string list \<Rightarrow> backend \<Rightarrow> (nat \<times> error option) \<times> backend" where
  "AddSong song verses s =
    (let songID = 0 in
     case WithTransaction (AddSong_fn song verses) songID s of
       (Some err, songID, s1) \<Rightarrow> ((0, Some err), s1)
     | (None, songID, s1) \<Rightarrow> ((songID, None), s1))"

definition DeleteSong :: "nat \<Rightarrow> backend \<Rightarrow> error option \<times> backend" where
  "DeleteSong songID s =
    (case db_Exec sql_delete_song [VInt (int songID)] s of
       (Inl err, s1) \<Rightarrow> (Some err, s1)
     | (Inr result, s1) \<Rightarrow>
         (case RowsAffected result s1 of
            (Inl err, s2) \<Rightarrow> (Some err, s2)
          | (Inr rowsAffected, s2) \<Rightarrow>
              if rowsAffected = 0 then (Some ErrSongNotFound, s2) else (None, s2)))"

text \<open>\<open>GetSong\<close> returns a pointer that may be \<open>nil\<close>: a \<open>Song option\<close>.\<close>

definition GetSong :: "nat \<Rightarrow> backend \<Rightarrow> (Song option \<times> error option) \<times> backend" where
  "GetSong songID s =
    (case db_QueryRow sql_select_song [VInt (int songID)] s of
       (row, s1) \<Rightarrow>
         (case Scan_Song row zero_Song of
            (song, err) \<Rightarrow>
              if errors_Is_nil err ErrNoRows then ((None, Some ErrSongNotFound), s1)
              else if err \<noteq> None then ((None, err), s1)
              else ((Some song, None), s1)))"

text \<open>The two example methods of the other storage types.\<close>

definition PGXStorage_GetSong :: "nat \<Rightarrow> backend \<Rightarrow> (nat \<times> error option) \<times> backend" where
  "PGXStorage_GetSong songID s =
    (case pgx_QueryRow sql_select_id [VInt (int songID)] s of
       (row, s1) \<Rightarrow> (case Scan_id row songID of (songID, err) \<Rightarrow> ((songID, err), s1)))"

definition ORMPostgresStorage_GetSong ::
  "nat \<Rightarrow> backend \<Rightarrow> (Song option \<times> error option) \<times> backend" where
  "ORMPostgresStorage_GetSong songID s =
    (case gorm_First zero_Song songID s of
       ((song, err), s1) \<Rightarrow> ((Some song, err), s1))"

section \<open>Decimal numerals: \<open>%d\<close>\<close>

definition digit :: "nat \<Rightarrow> char" where
  "digit d = ''0123456789'' ! d"

function show_nat :: "nat \<Rightarrow> string" where
  "show_nat n = (if n < 10 then [digit n] else show_nat (n div 10) @ [digit (n mod 10)])"
  by pat_completeness auto
termination
  by (relation "measure id") auto

declare show_nat.simps [simp del]

section \<open>The partial-update query builder\<close>

text \<open>
  \<open>buildUpdateSongQuery\<close>, statement by statement. The four \<open>if\<close> blocks update the
  local variables \<open>query\<close>, \<open>args\<close>, \<open>argIndex\<close> and \<open>updatesApplied\<close>;
  \<open>fmt.Sprintf("group_name = $%d, ", argIndex)\<close> is the concatenation around
  \<open>show_nat argIndex\<close> (\<open>argIndex\<close> counts up from 1). \<open>query[:len(query)-2]\<close> is
  \<open>take (length query - 2) query\<close>: the query is never shorter than two bytes there.
\<close>

definition buildUpdateSongQuery ::
  "nat \<Rightarrow> SongUpdate \<Rightarrow> string \<times> sql_value list \<times> error option" where
  "buildUpdateSongQuery songID updates =
    (let query = ''UPDATE songs SET '';
         args = [];
         argIndex = (1::nat);
         updatesApplied = False;
         (query, args, argIndex, updatesApplied) =
           (if upd_Group updates \<noteq> ''''
            then (query @ ''group_name = $'' @ show_nat argIndex @ '', '',
                  args @ [VStr (upd_Group updates)], argIndex + 1, True)
            else (query, args, argIndex, updatesApplied));
         (query, args, argIndex, updatesApplied) =
           (if upd_Name updates \<noteq> ''''
            then (query @ ''name = $'' @ show_nat argIndex @ '', '',
                  args @ [VStr (upd_Name updates)], argIndex + 1, True)
            else (query, args, argIndex, updatesApplied));
         (query, args, argIndex, updatesApplied) =
           (if upd_ReleaseDate updates \<noteq> ''''
            then (query @ ''release_date = $'' @ show_nat argIndex @ '', '',
                  args @ [VStr (upd_ReleaseDate updates)], argIndex + 1, True)
            else (query, args, argIndex, updatesApplied));
         (query, args, argIndex, updatesApplied) =
           (if upd_Link updates \<noteq> ''''
            then (query @ ''link = $'' @ show_nat argIndex @ '', '',
                  args @ [VStr (upd_Link updates)], argIndex + 1, True)
            else (query, args, argIndex, updatesApplied))
     in if \<not> updatesApplied
        then ('''', [], Some (ErrorString ''no valid fields to update''))
        else
          (let query = take (length query - 2) query;
               query = query @ '' WHERE id = $'' @ show_nat argIndex @ '' RETURNING id'';
               args = args @ [VInt (int songID)]
           in (query, args, None)))"

text \<open>
  \<open>buildUpdateVerseQuery\<close>: the \<open>range\<close> loop over the map appends one
  \<open>{Query, Args}\<close> struct per entry; a pair stands for the anonymous struct.
\<close>

definition sql_update_verse :: string where
  "sql_update_verse = ''UPDATE lyrics SET text = $1 WHERE song_id = $2 AND verse_number = $3''"

fun buildUpdateVerseQuery :: "nat \<Rightarrow> (nat \<times> string) list \<Rightarrow> (string \<times> sql_value list) list" where
  "buildUpdateVerseQuery songID [] = []"
| "buildUpdateVerseQuery songID ((verseNumber, text) # verses) =
     (sql_update_verse, [VStr text, VInt (int songID), VInt (int verseNumber)])
       # buildUpdateVerseQuery songID verses"

text \<open>
  \<open>UpdateSong\<close>. \<open>run_verse_queries\<close> is the loop over the verse statements;
  \<open>fmt.Errorf("failed to update verse: %w", err)\<close> wraps the backend's error.
\<close>

fun run_verse_queries :: "(string \<times> sql_value list) list \<Rightarrow> backend \<Rightarrow> error option \<times> backend" where
  "run_verse_queries [] s = (None, s)"
| "run_verse_queries (q # verseQueries) s =
     (case db_Exec (fst q) (snd q) s of
        (Inl err, s1) \<Rightarrow> (Some (Wrapped ''failed to update verse: '' err), s1)
      | (Inr result, s1) \<Rightarrow> run_verse_queries verseQueries s1)"

definition UpdateSong :: "nat \<Rightarrow> SongUpdate \<Rightarrow> backend \<Rightarrow> error option \<times> backend" where
  "UpdateSong songID updates s =
    (case buildUpdateSongQuery songID updates of
       (songQuery, songArgs, err) \<Rightarrow>
         if err \<noteq> None \<and> length (Verses updates) = 0 then (err, s)
         else
           (case (if songQuery \<noteq> ''''
                  then (case db_Exec songQuery songArgs s of
                          (Inl err, s1) \<Rightarrow> (Some (Wrapped ''failed to update song: '' err), s1)
                        | (Inr result, s1) \<Rightarrow> (None, s1))
                  else (None, s)) of
              (Some err, s1) \<Rightarrow> (Some err, s1)
            | (None, s1) \<Rightarrow>
                run_verse_queries (buildUpdateVerseQuery songID (Verses updates)) s1))"

text \<open>
  The builder as the specification words it: the fields in the order group, name, release
  date, link; one clause per non-empty value, numbered from 1, each followed by the
  separator; the last separator trimmed; the \<open>WHERE\<close> clause numbered one more than the
  number of set fields; the song identifier last among the arguments.
\<close>

definition set_fields :: "SongUpdate \<Rightarrow> (string \<times> string) list" where
  "set_fields updates =
     filter (\<lambda>(column, v). v \<noteq> '''')
       [(''group_name'', upd_Group updates), (''name'', upd_Name updates),
        (''release_date'', upd_ReleaseDate updates), (''link'', upd_Link updates)]"

fun assignment_clauses :: "nat \<Rightarrow> (string \<times> string) list \<Rightarrow> string list" where
  "assignment_clauses k [] = []"
| "assignment_clauses k ((column, v) # fs) =
     (column @ '' = $'' @ show_nat k @ '', '') # assignment_clauses (Suc k) fs"

definition trim_separator :: "string \<Rightarrow> string" where
  "trim_separator q = take (length q - length '', '') q"

definition buildUpdateSongQuery_spec ::
  "nat \<Rightarrow> SongUpdate \<Rightarrow> string \<times> sql_value list \<times> error option" where
  "buildUpdateSongQuery_spec songID updates =
    (let fs = set_fields updates in
     if length fs = 0 then ('''', [], Some (ErrorString ''no valid fields to update''))
     else (trim_separator (''UPDATE songs SET '' @ concat (assignment_clauses 1 fs))
             @ '' WHERE id = $'' @ show_nat (length fs + 1) @ '' RETURNING id'',
           map (\<lambda>(column, v). VStr v) fs @ [VInt (int songID)], None))"

section \<open>Auxiliary notions for the statements\<close>

text \<open>The state after one call into the driver that left the tables alone.\<close>

definition advance :: "backend \<Rightarrow> backend" where
  "advance s = s\<lparr>faults := tl (faults s)\<rparr>"

text \<open>The record that the row mapper makes of a row of \<open>songs\<close>.\<close>

definition song_of_row :: "songs_row \<Rightarrow> Song" where
  "song_of_row r = \<lparr>ID = nat (s_id r), Group = s_group_name r, Name = s_name r, Link = s_link r,
     ReleaseDate = s_release_date r, InsertedAt = s_inserted_at r\<rparr>"

text \<open>Concrete inputs for the instances below.\<close>

definition example_song :: Song where
  "example_song = \<lparr>ID = 0, Group = ''A'', Name = ''B'', Link = ''http://x'',
                     ReleaseDate = Time ''2006-07-16'', InsertedAt = zero_time\<rparr>"

definition empty_backend :: backend where
  "empty_backend = \<lparr>songs = [], lyrics = [], id_seq = 0, clock = Time ''2024-01-01'', faults = []\<rparr>"

definition example_backend :: backend where
  "example_backend =
     \<lparr>songs = [\<lparr>s_id = 1, s_group_name = ''A'', s_name = ''B'', s_link = ''http://x'',
                 s_release_date = Time ''2006-07-16'', s_inserted_at = Time ''2024-01-01''\<rparr>],
      lyrics = [\<lparr>l_song_id = 1, l_verse_number = 1, l_text = ''v1''\<rparr>,
                \<lparr>l_song_id = 1, l_verse_number = 2, l_text = ''v2''\<rparr>],
      id_seq = 1, clock = Time ''2024-01-01'', faults = []\<rparr>"

text \<open>
  The song-level part of a patch applied to one row: a non-empty field replaces the
  column, an empty field leaves it.
\<close>

definition patch_row :: "SongUpdate \<Rightarrow> songs_row \<Rightarrow> songs_row" where
  "patch_row updates r =
     r\<lparr>s_group_name := (if upd_Group updates \<noteq> '''' then upd_Group updates else s_group_name r),
       s_name := (if upd_Name updates \<noteq> '''' then upd_Name updates else s_name r),
       s_release_date := (if upd_ReleaseDate updates \<noteq> '''' then Time (upd_ReleaseDate updates)
                          else s_release_date r),
       s_link := (if upd_Link updates \<noteq> '''' then upd_Link updates else s_link r)\<rparr>"

text \<open>All four song-level fields of the patch are empty.\<close>

definition no_song_fields :: "SongUpdate \<Rightarrow> bool" where
  "no_song_fields updates \<longleftrightarrow>
     upd_Group updates = '''' \<and> upd_Name updates = '''' \<and> upd_ReleaseDate updates = ''''
     \<and> upd_Link updates = ''''"

text \<open>The state after \<open>k\<close> calls into the driver, the tables apart.\<close>

fun advance_by :: "nat \<Rightarrow> backend \<Rightarrow> backend" where
  "advance_by 0 s = s"
| "advance_by (Suc k) s = advance_by k (advance s)"

text \<open>The verse statements of a patch applied, in their order, to the table \<open>lyrics\<close>.\<close>

definition apply_verses :: "nat \<Rightarrow> (nat \<times> string) list \<Rightarrow> lyrics_row list \<Rightarrow> lyrics_row list" where
  "apply_verses songID verses ls =
     fold (\<lambda>(verseNumber, text). set_verse_text (int songID) (int verseNumber) text) verses ls"

text \<open>The song-level statement of a patch applied to the table \<open>songs\<close>.\<close>

definition patch_songs :: "nat \<Rightarrow> SongUpdate \<Rightarrow> songs_row list \<Rightarrow> songs_row list" where
  "patch_songs songID updates rows =
     (if no_song_fields updates then rows
      else map (\<lambda>r. if s_id r = int songID then patch_row updates r else r) rows)"

text \<open>The number of calls the song-level phase of \<open>UpdateSong\<close> makes: one unless it is skipped.\<close>

definition song_calls :: "SongUpdate \<Rightarrow> nat" where
  "song_calls updates = (if no_song_fields updates then 0 else 1)"

text \<open>Patches for the instances below.\<close>

definition empty_patch :: SongUpdate where
  "empty_patch = \<lparr>upd_Group = '''', upd_Name = '''', upd_Link = '''', upd_ReleaseDate = '''',
                   Verses = []\<rparr>"

definition verse_patch :: SongUpdate where
  "verse_patch = \<lparr>upd_Group = '''', upd_Name = '''', upd_Link = '''', upd_ReleaseDate = '''',
                   Verses = [(1, ''first''), (2, ''second'')]\<rparr>"

definition group_patch :: SongUpdate where
  "group_patch = \<lparr>upd_Group = ''X'', upd_Name = '''', upd_Link = '''', upd_ReleaseDate = '''',
                   Verses = [(2, ''second'')]\<rparr>"

text \<open>
  The rows that a successful \<open>AddSong\<close> adds: the row of \<open>songs\<close> with the next value of
  the sequence, and one row of \<open>lyrics\<close> per verse, numbered from \<open>i + 1\<close> in the order of
  the verses.
\<close>

definition new_song_row :: "Song \<Rightarrow> backend \<Rightarrow> songs_row" where
  "new_song_row song s =
     \<lparr>s_id = int (id_seq s) + 1, s_group_name = Group song, s_name = Name song,
      s_link = Link song, s_release_date = ReleaseDate song, s_inserted_at = clock s\<rparr>"

fun verse_rows :: "nat \<Rightarrow> int \<Rightarrow> string list \<Rightarrow> lyrics_row list" where
  "verse_rows songID i [] = []"
| "verse_rows songID i (verse # verses) =
     \<lparr>l_song_id = int songID, l_verse_number = i + 1, l_text = verse\<rparr>
       # verse_rows songID (i + 1) verses"

section \<open>Properties\<close>

subsection \<open>The query builder\<close>

lemma show_nat_digits [simp]:
  "show_nat 1 = ''1''" "show_nat 2 = ''2''" "show_nat 3 = ''3''"
  "show_nat 4 = ''4''" "show_nat 5 = ''5''"
  by (simp_all add: show_nat.simps digit_def)

lemma show_nat_Suc_digits [simp]:
  "show_nat (Suc 0) = ''1''" "show_nat (Suc (Suc 0)) = ''2''" "show_nat (Suc (Suc (Suc 0))) = ''3''"
  "show_nat (Suc (Suc (Suc (Suc 0)))) = ''4''" "show_nat (Suc (Suc (Suc (Suc (Suc 0))))) = ''5''"
  by (simp_all add: show_nat.simps digit_def)

text \<open>
  C3. \<open>buildUpdateSongQuery\<close> examines group, name, release date and link in that order;
  every non-empty value contributes one assignment clause with the next positional
  parameter and is appended to the arguments; with no clause the result is the error
  "no valid fields to update"; otherwise the trailing separator is trimmed and
  \<open>WHERE id = $n\<close> follows, \<open>n\<close> one more than the number of set fields, with the song
  identifier as the last argument. (The code ends the statement with \<open>RETURNING id\<close>.)
\<close>

theorem buildUpdateSongQuery_refines_spec:
  "buildUpdateSongQuery songID updates = buildUpdateSongQuery_spec songID updates"
  by (cases "upd_Group updates = ''''"; cases "upd_Name updates = ''''";
      cases "upd_ReleaseDate updates = ''''"; cases "upd_Link updates = ''''")
     (simp_all add: buildUpdateSongQuery_def buildUpdateSongQuery_spec_def set_fields_def
        trim_separator_def Let_def numeral_eq_Suc)

subsection \<open>The backend, call by call\<close>

lemma advance_simps [simp]:
  "songs (advance s) = songs s"
  "lyrics (advance s) = lyrics s"
  "id_seq (advance s) = id_seq s"
  "clock (advance s) = clock s"
  "faults (advance s) = tl (faults s)"
  by (simp_all add: advance_def)

lemma fault_at_advance [simp]: "fault_at (advance s) k = fault_at s (Suc k)"
  by (cases "faults s") (auto simp: fault_at_def advance_def)

lemma fault_at_update [simp]:
  "fault_at (s\<lparr>songs := x\<rparr>) k = fault_at s k"
  "fault_at (s\<lparr>lyrics := y\<rparr>) k = fault_at s k"
  "fault_at (s\<lparr>id_seq := z\<rparr>) k = fault_at s k"
  by (simp_all add: fault_at_def)

lemma advance_update [simp]:
  "advance (s\<lparr>songs := x\<rparr>) = (advance s)\<lparr>songs := x\<rparr>"
  "advance (s\<lparr>lyrics := y\<rparr>) = (advance s)\<lparr>lyrics := y\<rparr>"
  "advance (s\<lparr>id_seq := z\<rparr>) = (advance s)\<lparr>id_seq := z\<rparr>"
  by (simp_all add: advance_def)

lemma advance_by_simps [simp]:
  "songs (advance_by k s) = songs s"
  "lyrics (advance_by k s) = lyrics s"
  "id_seq (advance_by k s) = id_seq s"
  "clock (advance_by k s) = clock s"
  "fault_at (advance_by k s) j = fault_at s (k + j)"
  "advance_by k (s\<lparr>songs := x\<rparr>) = (advance_by k s)\<lparr>songs := x\<rparr>"
  "advance_by k (s\<lparr>lyrics := y\<rparr>) = (advance_by k s)\<lparr>lyrics := y\<rparr>"
  by (induction k arbitrary: s; simp)+

lemma backend_songs_same [simp]: "songs s = x \<Longrightarrow> s\<lparr>songs := x\<rparr> = s"
  by (cases s) auto

lemma next_fault_eq: "next_fault s = (fault_at s 0, advance s)"
  by (cases "faults s") (simp_all add: next_fault_def fault_at_def advance_def)

lemma parse_fixed [simp]:
  "parse_statement sql_insert_song = Some InsertSong"
  "parse_statement sql_insert_lyrics = Some InsertLyrics"
  "parse_statement sql_delete_song = Some DeleteSongById"
  "parse_statement sql_select_song = Some SelectSongById"
  "parse_statement sql_select_id = Some SelectIdById"
  "parse_statement sql_update_verse = Some UpdateVerse"
  by (simp_all add: parse_statement_def sql_words_def is_space_def sql_insert_song_def
      sql_insert_lyrics_def sql_delete_song_def sql_select_song_def sql_select_id_def
      sql_update_verse_def)

lemma round_trip_eq:
  "round_trip query args s =
    (case fault_at s 0 of
       Some msg \<Rightarrow> (Inl (BackendErr msg), advance s)
     | None \<Rightarrow>
         (case parse_statement query of
            None \<Rightarrow> (Inl (BackendErr ''pq: syntax error''), advance s)
          | Some st \<Rightarrow> run_statement st args (advance s)))"
  by (simp add: round_trip_def next_fault_eq)

subsection \<open>Lookup and deletion\<close>

lemma GetSong_eq:
  "GetSong songID s =
    (case fault_at s 0 of
       Some msg \<Rightarrow> ((None, Some (BackendErr msg)), advance s)
     | None \<Rightarrow>
        (case filter (\<lambda>r. s_id r = int songID) (songs s) of
           [] \<Rightarrow> ((None, Some ErrSongNotFound), advance s)
         | r # rs \<Rightarrow> ((Some (song_of_row r), None), advance s)))"
proof (cases "fault_at s 0")
  case None
  show ?thesis
  proof (cases "filter (\<lambda>r. s_id r = int songID) (songs s)")
    case Nil
    with None show ?thesis
      by (simp add: GetSong_def db_QueryRow_def round_trip_eq run_SelectSongById_def
          Scan_Song_def errors_Is_nil_def)
  next
    case (Cons r rs)
    then have "r \<in> set (filter (\<lambda>r. s_id r = int songID) (songs s))" by simp
    then have "s_id r = int songID" by simp
    with None Cons show ?thesis
      by (simp add: GetSong_def db_QueryRow_def round_trip_eq run_SelectSongById_def
          Scan_Song_def errors_Is_nil_def row_values_def song_of_row_def)
  qed
next
  case (Some msg)
  then show ?thesis
    by (simp add: GetSong_def db_QueryRow_def round_trip_eq Scan_Song_def errors_Is_nil_def)
qed

lemma DeleteSong_eq:
  "DeleteSong songID s =
    (case fault_at s 0 of
       Some msg \<Rightarrow> (Some (BackendErr msg), advance s)
     | None \<Rightarrow>
        (case fault_at s 1 of
           Some msg \<Rightarrow> (Some (BackendErr msg),
                        (advance (advance s))\<lparr>songs := filter (\<lambda>r. s_id r \<noteq> int songID) (songs s)\<rparr>)
         | None \<Rightarrow>
            (if length (filter (\<lambda>r. s_id r = int songID) (songs s)) = 0
             then Some ErrSongNotFound else None,
             (advance (advance s))\<lparr>songs := filter (\<lambda>r. s_id r \<noteq> int songID) (songs s)\<rparr>)))"
  by (simp add: DeleteSong_def db_Exec_def round_trip_eq run_DeleteSongById_def RowsAffected_def
      next_fault_eq split: option.splits)

text \<open>
  C7. \<open>GetSong\<close> returns \<open>ErrSongNotFound\<close> and no record exactly when the backend answers
  and no row of \<open>songs\<close> has the identifier; a failure of the backend is returned as it
  is; whenever an error is returned, no record is. The tables are left as they were.
\<close>

theorem GetSong_not_found_exactly_when_no_row:
  "(fst (GetSong songID s) = (None, Some ErrSongNotFound)
      \<longleftrightarrow> fault_at s 0 = None \<and> filter (\<lambda>r. s_id r = int songID) (songs s) = [])
   \<and> (fault_at s 0 = Some msg \<longrightarrow> fst (GetSong songID s) = (None, Some (BackendErr msg)))
   \<and> (snd (fst (GetSong songID s)) \<noteq> None \<longrightarrow> fst (fst (GetSong songID s)) = None)
   \<and> songs (snd (GetSong songID s)) = songs s \<and> lyrics (snd (GetSong songID s)) = lyrics s"
  by (simp add: GetSong_eq split: option.splits list.splits)

theorem GetSong_not_found_witness:
  "fault_at example_backend 0 = None
   \<and> filter (\<lambda>r. s_id r = int 2) (songs example_backend) = []
   \<and> fst (GetSong 2 example_backend) = (None, Some ErrSongNotFound)
   \<and> fault_at (example_backend\<lparr>faults := [Some ''connection reset'']\<rparr>) 0 = Some ''connection reset''
   \<and> fst (GetSong 1 (example_backend\<lparr>faults := [Some ''connection reset'']\<rparr>))
       = (None, Some (BackendErr ''connection reset''))"
  using GetSong_not_found_exactly_when_no_row [of 2 example_backend]
    GetSong_not_found_exactly_when_no_row
      [of 1 "example_backend\<lparr>faults := [Some ''connection reset'']\<rparr>" "''connection reset''"]
  by (simp add: example_backend_def fault_at_def)

text \<open>
  C8. \<open>DeleteSong\<close> returns \<open>ErrSongNotFound\<close> exactly when the backend answers both calls
  and the delete affected no row: the statement is executed first and the result follows
  from the count of affected rows (first and second conjunct). In that case the tables are
  unchanged and a second delete of the same identifier, answered by the backend, returns
  \<open>ErrSongNotFound\<close> again. A failure of \<open>Exec\<close> or of \<open>RowsAffected\<close> is returned as it is.
\<close>

theorem DeleteSong_not_found_exactly_when_zero_rows:
  "(fst (DeleteSong songID s) = Some ErrSongNotFound
      \<longleftrightarrow> fault_at s 0 = None \<and> fault_at s 1 = None
          \<and> length (filter (\<lambda>r. s_id r = int songID) (songs s)) = 0)
   \<and> (fault_at s 0 = None \<and> fault_at s 1 = None \<longrightarrow>
        DeleteSong songID s =
          (if length (filter (\<lambda>r. s_id r = int songID) (songs s)) = 0
           then Some ErrSongNotFound else None,
           (advance (advance s))\<lparr>songs := filter (\<lambda>r. s_id r \<noteq> int songID) (songs s)\<rparr>))
   \<and> (fst (DeleteSong songID s) = Some ErrSongNotFound \<longrightarrow>
        songs (snd (DeleteSong songID s)) = songs s
        \<and> lyrics (snd (DeleteSong songID s)) = lyrics s
        \<and> (fault_at (snd (DeleteSong songID s)) 0 = None
             \<and> fault_at (snd (DeleteSong songID s)) 1 = None \<longrightarrow>
            fst (DeleteSong songID (snd (DeleteSong songID s))) = Some ErrSongNotFound))
   \<and> (fault_at s 0 = Some msg \<longrightarrow> fst (DeleteSong songID s) = Some (BackendErr msg))
   \<and> (fault_at s 0 = None \<and> fault_at s 1 = Some msg \<longrightarrow>
        fst (DeleteSong songID s) = Some (BackendErr msg))"
proof -
  have unchanged: "filter (\<lambda>r. s_id r \<noteq> int songID) (songs s) = songs s"
    if "filter (\<lambda>r. s_id r = int songID) (songs s) = []"
    using that by (simp add: filter_empty_conv filter_id_conv)
  show ?thesis
    by (auto simp: DeleteSong_eq unchanged split: option.splits)
qed

theorem DeleteSong_not_found_witness:
  "fst (DeleteSong 2 example_backend) = Some ErrSongNotFound
   \<and> songs (snd (DeleteSong 2 example_backend)) = songs example_backend
   \<and> lyrics (snd (DeleteSong 2 example_backend)) = lyrics example_backend
   \<and> fst (DeleteSong 2 (snd (DeleteSong 2 example_backend))) = Some ErrSongNotFound
   \<and> DeleteSong 1 example_backend = (None, example_backend\<lparr>songs := []\<rparr>)
   \<and> fst (DeleteSong 1 (example_backend\<lparr>faults := [Some ''connection reset'']\<rparr>))
       = Some (BackendErr ''connection reset'')
   \<and> fst (DeleteSong 1 (example_backend\<lparr>faults := [None, Some ''no result'']\<rparr>))
       = Some (BackendErr ''no result'')"
  using DeleteSong_not_found_exactly_when_zero_rows [of 2 example_backend]
    DeleteSong_not_found_exactly_when_zero_rows [of 1 example_backend]
    DeleteSong_not_found_exactly_when_zero_rows
      [of 1 "example_backend\<lparr>faults := [Some ''connection reset'']\<rparr>" "''connection reset''"]
    DeleteSong_not_found_exactly_when_zero_rows
      [of 1 "example_backend\<lparr>faults := [None, Some ''no result'']\<rparr>" "''no result''"]
  by (simp add: example_backend_def fault_at_def advance_def)

subsection \<open>The statements of an update\<close>

text \<open>
  Every statement that \<open>buildUpdateSongQuery\<close> builds is one the backend can read, and
  running it patches the rows with the given identifier: the positional parameters of the
  text and the order of the arguments fit.
\<close>

lemma build_empty:
  "no_song_fields updates \<Longrightarrow>
     buildUpdateSongQuery songID updates = ('''', [], Some (ErrorString ''no valid fields to update''))"
  by (simp add: buildUpdateSongQuery_def no_song_fields_def)

lemma run_built_song_query:
  assumes "\<not> no_song_fields updates"
  shows "\<exists>query args. buildUpdateSongQuery songID updates = (query, args, None) \<and> query \<noteq> ''''
     \<and> (\<exists>st. parse_statement query = Some st \<and>
          run_statement st args s =
           (Inr (map (\<lambda>r. [VInt (s_id r)]) (filter (\<lambda>r. s_id r = int songID) (songs s)),
                 length (filter (\<lambda>r. s_id r = int songID) (songs s))),
            s\<lparr>songs := map (\<lambda>r. if s_id r = int songID then patch_row updates r else r) (songs s)\<rparr>))"
  using assms
  by (cases "upd_Group updates = ''''"; cases "upd_Name updates = ''''";
      cases "upd_ReleaseDate updates = ''''"; cases "upd_Link updates = ''''")
     (simp_all add: buildUpdateSongQuery_def no_song_fields_def parse_statement_def sql_words_def
        is_space_def digit_val_def run_UpdateSongs_def param_def set_column_def patch_row_def)

lemma db_Exec_built_song_query:
  assumes "\<not> no_song_fields updates"
  shows "\<exists>query args. buildUpdateSongQuery songID updates = (query, args, None) \<and> query \<noteq> []
     \<and> db_Exec query args s =
         (case fault_at s 0 of
            Some msg \<Rightarrow> (Inl (BackendErr msg), advance s)
          | None \<Rightarrow>
             (Inr (length (filter (\<lambda>r. s_id r = int songID) (songs s))),
              (advance s)\<lparr>songs := patch_songs songID updates (songs s)\<rparr>))"
proof -
  from run_built_song_query [OF assms, of songID "advance s"]
  obtain query args st where
    "buildUpdateSongQuery songID updates = (query, args, None)" "query \<noteq> []"
    "parse_statement query = Some st"
    "run_statement st args (advance s) =
       (Inr (map (\<lambda>r. [VInt (s_id r)]) (filter (\<lambda>r. s_id r = int songID) (songs s)),
             length (filter (\<lambda>r. s_id r = int songID) (songs s))),
        (advance s)\<lparr>songs := map (\<lambda>r. if s_id r = int songID then patch_row updates r else r) (songs s)\<rparr>)"
    by auto
  then show ?thesis
    using assms by (simp add: db_Exec_def round_trip_eq patch_songs_def split: option.splits)
qed

lemma db_Exec_update_verse:
  "db_Exec sql_update_verse [VStr t, VInt sid, VInt vn] s =
    (case fault_at s 0 of
       Some msg \<Rightarrow> (Inl (BackendErr msg), advance s)
     | None \<Rightarrow>
        (Inr (length (filter (\<lambda>l. l_song_id l = sid \<and> l_verse_number l = vn) (lyrics s))),
         (advance s)\<lparr>lyrics := set_verse_text sid vn t (lyrics s)\<rparr>))"
  by (simp add: db_Exec_def round_trip_eq run_UpdateVerse_def split: option.splits)

lemma run_verse_queries_all:
  "\<forall>k < length verses. fault_at s k = None \<Longrightarrow>
   run_verse_queries (buildUpdateVerseQuery songID verses) s =
     (None, (advance_by (length verses) s)\<lparr>lyrics := apply_verses songID verses (lyrics s)\<rparr>)"
proof (induction verses arbitrary: s)
  case Nil
  then show ?case by (simp add: apply_verses_def)
next
  case (Cons v verses)
  obtain n t where v: "v = (n, t)" by (cases v)
  from Cons.prems have first: "fault_at s 0 = None" by auto
  from Cons.prems have rest: "\<forall>k < length verses. fault_at s (Suc k) = None" by auto
  show ?case
    using first rest
    by (simp add: v db_Exec_update_verse Cons.IH apply_verses_def)
qed

lemma run_verse_queries_failure:
  "\<forall>k < length verses1. fault_at s k = None \<Longrightarrow> fault_at s (length verses1) = Some msg \<Longrightarrow>
   run_verse_queries (buildUpdateVerseQuery songID (verses1 @ (n, t) # verses2)) s =
     (Some (Wrapped ''failed to update verse: '' (BackendErr msg)),
      (advance_by (Suc (length verses1)) s)\<lparr>lyrics := apply_verses songID verses1 (lyrics s)\<rparr>)"
proof (induction verses1 arbitrary: s)
  case Nil
  then show ?case by (simp add: apply_verses_def db_Exec_update_verse)
next
  case (Cons v verses1)
  obtain n' t' where v: "v = (n', t')" by (cases v)
  from Cons.prems have first: "fault_at s 0 = None" by auto
  from Cons.prems have rest: "\<forall>k < length verses1. fault_at s (Suc k) = None" by auto
  from Cons.prems have fails: "fault_at s (Suc (length verses1)) = Some msg" by simp
  show ?case
    using first rest fails
    by (simp add: v db_Exec_update_verse Cons.IH apply_verses_def)
qed

lemma run_verse_queries_songs:
  "songs (snd (run_verse_queries (buildUpdateVerseQuery songID verses) s)) = songs s"
proof (induction verses arbitrary: s)
  case Nil
  show ?case by simp
next
  case (Cons v verses)
  obtain n t where v: "v = (n, t)" by (cases v)
  show ?case
    by (cases "fault_at s 0") (simp_all add: v db_Exec_update_verse Cons.IH)
qed

lemma run_verse_queries_error:
  "fst (run_verse_queries (buildUpdateVerseQuery songID verses) s) = Some e \<Longrightarrow>
     \<exists>msg. e = Wrapped ''failed to update verse: '' (BackendErr msg)"
proof (induction verses arbitrary: s)
  case Nil
  then show ?case by simp
next
  case (Cons v verses)
  obtain n t where v: "v = (n, t)" by (cases v)
  show ?case
  proof (cases "fault_at s 0")
    case None
    with Cons.prems have
      "fst (run_verse_queries (buildUpdateVerseQuery songID verses)
              ((advance s)\<lparr>lyrics := set_verse_text (int songID) (int n) t (lyrics s)\<rparr>)) = Some e"
      by (simp add: v db_Exec_update_verse)
    then show ?thesis by (rule Cons.IH)
  next
    case (Some msg)
    with Cons.prems show ?thesis by (auto simp: v db_Exec_update_verse)
  qed
qed

lemma UpdateSong_eq:
  "UpdateSong songID updates s =
    (if no_song_fields updates then
       (if Verses updates = [] then (Some (ErrorString ''no valid fields to update''), s)
        else run_verse_queries (buildUpdateVerseQuery songID (Verses updates)) s)
     else
       (case fault_at s 0 of
          Some msg \<Rightarrow> (Some (Wrapped ''failed to update song: '' (BackendErr msg)), advance s)
        | None \<Rightarrow>
            run_verse_queries (buildUpdateVerseQuery songID (Verses updates))
              ((advance s)\<lparr>songs := patch_songs songID updates (songs s)\<rparr>)))"
proof (cases "no_song_fields updates")
  case True
  then show ?thesis by (simp add: UpdateSong_def build_empty)
next
  case False
  from db_Exec_built_song_query [OF False, of songID s]
  obtain query args where
    "buildUpdateSongQuery songID updates = (query, args, None)" "query \<noteq> []"
    "db_Exec query args s =
         (case fault_at s 0 of
            Some msg \<Rightarrow> (Inl (BackendErr msg), advance s)
          | None \<Rightarrow>
             (Inr (length (filter (\<lambda>r. s_id r = int songID) (songs s))),
              (advance s)\<lparr>songs := patch_songs songID updates (songs s)\<rparr>))"
    by auto
  with False show ?thesis
    by (simp add: UpdateSong_def split: option.splits)
qed

lemma Verses_update_simps [simp]:
  "no_song_fields (updates\<lparr>Verses := verses\<rparr>) = no_song_fields updates"
  "patch_songs songID (updates\<lparr>Verses := verses\<rparr>) rows = patch_songs songID updates rows"
  "song_calls (updates\<lparr>Verses := verses\<rparr>) = song_calls updates"
  by (simp_all add: no_song_fields_def patch_songs_def patch_row_def song_calls_def)

lemma UpdateSong_error:
  assumes "fst (UpdateSong songID updates s) = Some e"
  shows "e = ErrorString ''no valid fields to update''
     \<or> (\<exists>msg. e = Wrapped ''failed to update song: '' (BackendErr msg))
     \<or> (\<exists>msg. e = Wrapped ''failed to update verse: '' (BackendErr msg))"
  using assms
  by (auto simp: UpdateSong_eq split: if_splits option.splits dest: run_verse_queries_error)

subsection \<open>Partial updates\<close>

text \<open>
  C4. \<open>UpdateSong\<close> with all song-level fields empty and an empty verse mapping returns
  the validation error "no valid fields to update" and leaves the state as it was (no call
  reaches the backend). With all song-level fields empty and a non-empty verse mapping the
  song-level statement is skipped and the verse statements run: the call is the run of the
  verse statements, the validation error is not returned and the table \<open>songs\<close> is as
  before; on a backend that answers the statements the result is \<open>nil\<close> and the table
  \<open>lyrics\<close> holds every verse of the mapping; and the first verse statement does reach
  the backend, whose failure there is the result.
\<close>

theorem UpdateSong_empty_patch_rejected_verse_only_accepted:
  "(no_song_fields updates \<and> Verses updates = [] \<longrightarrow>
      UpdateSong songID updates s = (Some (ErrorString ''no valid fields to update''), s))
   \<and> (no_song_fields updates \<and> Verses updates \<noteq> [] \<longrightarrow>
        UpdateSong songID updates s
          = run_verse_queries (buildUpdateVerseQuery songID (Verses updates)) s
        \<and> fst (UpdateSong songID updates s) \<noteq> Some (ErrorString ''no valid fields to update'')
        \<and> songs (snd (UpdateSong songID updates s)) = songs s)
   \<and> (no_song_fields updates \<and> Verses updates \<noteq> []
        \<and> (\<forall>k < length (Verses updates). fault_at s k = None) \<longrightarrow>
        UpdateSong songID updates s
          = (None, (advance_by (length (Verses updates)) s)
                     \<lparr>lyrics := apply_verses songID (Verses updates) (lyrics s)\<rparr>))
   \<and> (no_song_fields updates \<and> Verses updates \<noteq> [] \<and> fault_at s 0 = Some msg \<longrightarrow>
        UpdateSong songID updates s
          = (Some (Wrapped ''failed to update verse: '' (BackendErr msg)), advance s))"
proof -
  have "fst (run_verse_queries (buildUpdateVerseQuery songID (Verses updates)) s)
          \<noteq> Some (ErrorString ''no valid fields to update'')"
    using run_verse_queries_error [of songID "Verses updates" s] by auto
  then have first: "(no_song_fields updates \<and> Verses updates = [] \<longrightarrow>
      UpdateSong songID updates s = (Some (ErrorString ''no valid fields to update''), s))
   \<and> (no_song_fields updates \<and> Verses updates \<noteq> [] \<longrightarrow>
        UpdateSong songID updates s
          = run_verse_queries (buildUpdateVerseQuery songID (Verses updates)) s
        \<and> fst (UpdateSong songID updates s) \<noteq> Some (ErrorString ''no valid fields to update'')
        \<and> songs (snd (UpdateSong songID updates s)) = songs s)"
    by (simp add: UpdateSong_eq run_verse_queries_songs)
  have answered: "UpdateSong songID updates s
          = (None, (advance_by (length (Verses updates)) s)
                     \<lparr>lyrics := apply_verses songID (Verses updates) (lyrics s)\<rparr>)"
    if "no_song_fields updates" "Verses updates \<noteq> []"
      "\<forall>k < length (Verses updates). fault_at s k = None"
    using that by (simp add: UpdateSong_eq run_verse_queries_all)
  have failing: "UpdateSong songID updates s
          = (Some (Wrapped ''failed to update verse: '' (BackendErr msg)), advance s)"
    if "no_song_fields updates" "Verses updates \<noteq> []" "fault_at s 0 = Some msg"
  proof -
    from that(2) obtain n t verses2 where v: "Verses updates = [] @ (n, t) # verses2"
      by (cases "Verses updates") auto
    from that(3) have "run_verse_queries (buildUpdateVerseQuery songID ([] @ (n, t) # verses2)) s =
       (Some (Wrapped ''failed to update verse: '' (BackendErr msg)),
        (advance_by (Suc (length ([] :: (nat \<times> string) list))) s)
          \<lparr>lyrics := apply_verses songID [] (lyrics s)\<rparr>)"
      by (intro run_verse_queries_failure) simp_all
    with that(1,2) v show ?thesis
      by (simp add: UpdateSong_eq apply_verses_def)
  qed
  from first answered failing show ?thesis by blast
qed

theorem UpdateSong_empty_patch_witness:
  "no_song_fields empty_patch \<and> Verses empty_patch = []
   \<and> UpdateSong 1 empty_patch example_backend
       = (Some (ErrorString ''no valid fields to update''), example_backend)
   \<and> no_song_fields verse_patch \<and> Verses verse_patch \<noteq> []
   \<and> UpdateSong 1 verse_patch example_backend
       = (None, example_backend
            \<lparr>lyrics := [\<lparr>l_song_id = 1, l_verse_number = 1, l_text = ''first''\<rparr>,
                        \<lparr>l_song_id = 1, l_verse_number = 2, l_text = ''second''\<rparr>]\<rparr>)
   \<and> songs (snd (UpdateSong 1 verse_patch example_backend)) = songs example_backend
   \<and> UpdateSong 1 verse_patch (example_backend\<lparr>faults := [Some ''connection reset'']\<rparr>)
       = (Some (Wrapped ''failed to update verse: '' (BackendErr ''connection reset'')),
          example_backend)"
proof -
  let ?down = "example_backend\<lparr>faults := [Some ''connection reset'']\<rparr>"
  have empty: "no_song_fields empty_patch \<and> Verses empty_patch = []"
    by (simp add: no_song_fields_def empty_patch_def)
  have verse: "no_song_fields verse_patch \<and> Verses verse_patch \<noteq> []"
    by (simp add: no_song_fields_def verse_patch_def)
  have answers: "\<forall>k < length (Verses verse_patch). fault_at example_backend k = None"
    by (simp add: fault_at_def example_backend_def)
  have fails: "fault_at ?down 0 = Some ''connection reset''" "advance ?down = example_backend"
    by (simp_all add: fault_at_def advance_def example_backend_def)
  have after: "(advance_by (length (Verses verse_patch)) example_backend)
        \<lparr>lyrics := apply_verses 1 (Verses verse_patch) (lyrics example_backend)\<rparr>
      = example_backend
            \<lparr>lyrics := [\<lparr>l_song_id = 1, l_verse_number = 1, l_text = ''first''\<rparr>,
                        \<lparr>l_song_id = 1, l_verse_number = 2, l_text = ''second''\<rparr>]\<rparr>"
    by (simp add: verse_patch_def example_backend_def apply_verses_def set_verse_text_def
        advance_def numeral_2_eq_2)
  from empty
    UpdateSong_empty_patch_rejected_verse_only_accepted [of empty_patch 1 example_backend]
  have rejected: "UpdateSong 1 empty_patch example_backend
       = (Some (ErrorString ''no valid fields to update''), example_backend)"
    by blast
  from verse answers
    UpdateSong_empty_patch_rejected_verse_only_accepted [of verse_patch 1 example_backend]
  have "UpdateSong 1 verse_patch example_backend
       = (None, (advance_by (length (Verses verse_patch)) example_backend)
            \<lparr>lyrics := apply_verses 1 (Verses verse_patch) (lyrics example_backend)\<rparr>)"
    and same: "songs (snd (UpdateSong 1 verse_patch example_backend)) = songs example_backend"
    by blast+
  then have accepted: "UpdateSong 1 verse_patch example_backend
       = (None, example_backend
            \<lparr>lyrics := [\<lparr>l_song_id = 1, l_verse_number = 1, l_text = ''first''\<rparr>,
                        \<lparr>l_song_id = 1, l_verse_number = 2, l_text = ''second''\<rparr>]\<rparr>)"
    unfolding after by blast
  from verse fails(1)
    UpdateSong_empty_patch_rejected_verse_only_accepted
      [of verse_patch 1 ?down "''connection reset''"]
  have "UpdateSong 1 verse_patch ?down
       = (Some (Wrapped ''failed to update verse: '' (BackendErr ''connection reset'')),
          advance ?down)"
    by blast
  then have failed: "UpdateSong 1 verse_patch ?down
       = (Some (Wrapped ''failed to update verse: '' (BackendErr ''connection reset'')),
          example_backend)"
    unfolding fails(2) .
  from empty verse rejected accepted same failed show ?thesis by blast
qed

lemma set_verse_text_commute:
  "vn \<noteq> vn' \<Longrightarrow>
   set_verse_text sid vn t (set_verse_text sid vn' t' ls)
     = set_verse_text sid vn' t' (set_verse_text sid vn t ls)"
  by (induction ls) (simp_all add: set_verse_text_def)

lemma apply_verses_permutation:
  assumes "distinct (map fst verses)" and "mset verses' = mset verses"
  shows "apply_verses songID verses' ls = apply_verses songID verses ls"
proof -
  let ?f = "\<lambda>(verseNumber, text). set_verse_text (int songID) (int verseNumber) text"
  have comm: "?f x \<circ> ?f y = ?f y \<circ> ?f x" if "x \<in> set verses" "y \<in> set verses" for x y
  proof (cases "x = y")
    case True
    then show ?thesis by simp
  next
    case False
    obtain n t n' t' where xy: "x = (n, t)" "y = (n', t')" by (cases x, cases y)
    have "n \<noteq> n'"
    proof
      assume "n = n'"
      with assms(1) that have "t = t'"
        unfolding xy by (auto dest: eq_key_imp_eq_value)
      with \<open>n = n'\<close> False show False by (simp add: xy)
    qed
    then show ?thesis
      by (auto simp: xy fun_eq_iff intro: set_verse_text_commute)
  qed
  have "fold ?f verses = fold ?f verses'"
    using comm assms(2) [symmetric] by (rule fold_multiset_equiv)
  then show ?thesis by (simp add: apply_verses_def)
qed

lemma buildUpdateVerseQuery_map:
  "buildUpdateVerseQuery songID verses =
     map (\<lambda>(verseNumber, text).
            (sql_update_verse, [VStr text, VInt (int songID), VInt (int verseNumber)])) verses"
  by (induction verses) auto

text \<open>
  C5 claims that the verse statements of a mapping leave the same final state in every
  iteration order. That fails when a statement fails: the loop stops there, so the order
  decides which verses were updated. Here the second call fails; visiting verse 1 first
  leaves verse 1 updated, visiting verse 2 first leaves verse 2 updated.
\<close>

theorem verse_statements_order_matters_when_a_statement_fails:
  "distinct (map fst [(1::nat, ''first''), (2, ''second'')])
   \<and> mset [(2::nat, ''second''), (1, ''first'')] = mset [(1, ''first''), (2, ''second'')]
   \<and> lyrics (snd (UpdateSong 1 (verse_patch\<lparr>Verses := [(1, ''first''), (2, ''second'')]\<rparr>)
                    (example_backend\<lparr>faults := [None, Some ''connection reset'']\<rparr>)))
       = [\<lparr>l_song_id = 1, l_verse_number = 1, l_text = ''first''\<rparr>,
          \<lparr>l_song_id = 1, l_verse_number = 2, l_text = ''v2''\<rparr>]
   \<and> lyrics (snd (UpdateSong 1 (verse_patch\<lparr>Verses := [(2, ''second''), (1, ''first'')]\<rparr>)
                    (example_backend\<lparr>faults := [None, Some ''connection reset'']\<rparr>)))
       = [\<lparr>l_song_id = 1, l_verse_number = 1, l_text = ''v1''\<rparr>,
          \<lparr>l_song_id = 1, l_verse_number = 2, l_text = ''second''\<rparr>]
   \<and> snd (UpdateSong 1 (verse_patch\<lparr>Verses := [(2, ''second''), (1, ''first'')]\<rparr>)
             (example_backend\<lparr>faults := [None, Some ''connection reset'']\<rparr>))
       \<noteq> snd (UpdateSong 1 (verse_patch\<lparr>Verses := [(1, ''first''), (2, ''second'')]\<rparr>)
                (example_backend\<lparr>faults := [None, Some ''connection reset'']\<rparr>))"
proof -
  let ?s = "example_backend\<lparr>faults := [None, Some ''connection reset'']\<rparr>"
  have f: "\<forall>k < length [(a::nat, b::string)]. fault_at ?s k = None"
    "fault_at ?s (length [(a::nat, b::string)]) = Some ''connection reset''" for a b
    by (simp_all add: fault_at_def)
  have run: "run_verse_queries (buildUpdateVerseQuery 1 ([(a, b)] @ (n, t) # [])) ?s =
     (Some (Wrapped ''failed to update verse: '' (BackendErr ''connection reset'')),
      (advance_by (Suc (length [(a, b)])) ?s)\<lparr>lyrics := apply_verses 1 [(a, b)] (lyrics ?s)\<rparr>)"
    for a b n t
    using f [of a b] by (rule run_verse_queries_failure)
  have none: "no_song_fields verse_patch"
    by (simp add: no_song_fields_def verse_patch_def)
  have A: "lyrics (snd (UpdateSong 1 (verse_patch\<lparr>Verses := [(1, ''first''), (2, ''second'')]\<rparr>) ?s))
       = [\<lparr>l_song_id = 1, l_verse_number = 1, l_text = ''first''\<rparr>,
          \<lparr>l_song_id = 1, l_verse_number = 2, l_text = ''v2''\<rparr>]"
    using run [of 1 "''first''" 2 "''second''"] none
    by (simp add: UpdateSong_eq apply_verses_def set_verse_text_def example_backend_def)
  have B: "lyrics (snd (UpdateSong 1 (verse_patch\<lparr>Verses := [(2, ''second''), (1, ''first'')]\<rparr>) ?s))
       = [\<lparr>l_song_id = 1, l_verse_number = 1, l_text = ''v1''\<rparr>,
          \<lparr>l_song_id = 1, l_verse_number = 2, l_text = ''second''\<rparr>]"
    using run [of 2 "''second''" 1 "''first''"] none
    by (simp add: UpdateSong_eq apply_verses_def set_verse_text_def example_backend_def)
  have C: "snd (UpdateSong 1 (verse_patch\<lparr>Verses := [(2, ''second''), (1, ''first'')]\<rparr>) ?s)
       \<noteq> snd (UpdateSong 1 (verse_patch\<lparr>Verses := [(1, ''first''), (2, ''second'')]\<rparr>) ?s)"
  proof
    assume "snd (UpdateSong 1 (verse_patch\<lparr>Verses := [(2, ''second''), (1, ''first'')]\<rparr>) ?s)
       = snd (UpdateSong 1 (verse_patch\<lparr>Verses := [(1, ''first''), (2, ''second'')]\<rparr>) ?s)"
    then have "lyrics (snd (UpdateSong 1 (verse_patch\<lparr>Verses := [(2, ''second''), (1, ''first'')]\<rparr>) ?s))
       = lyrics (snd (UpdateSong 1 (verse_patch\<lparr>Verses := [(1, ''first''), (2, ''second'')]\<rparr>) ?s))"
      by simp
    with A B show False by simp
  qed
  have D: "distinct (map fst [(1::nat, ''first''), (2, ''second'')])
     \<and> mset [(2::nat, ''second''), (1, ''first'')] = mset [(1, ''first''), (2, ''second'')]"
    by simp
  from A B C D show ?thesis by blast
qed

text \<open>
  C5, amended. \<open>buildUpdateVerseQuery\<close> emits one statement per entry of the verse
  mapping, with the text, the song identifier and the verse number as its arguments; the
  targeted pairs (song identifier, verse number) of a mapping are pairwise distinct. For
  two orders \<open>verses\<close> and \<open>verses'\<close> in which the \<open>range\<close> loop may visit the same mapping
  (distinct keys, one a permutation of the other), on a backend that answers every call of
  the run, \<open>UpdateSong\<close> and the run of the verse statements end in the same state with the
  same result.
\<close>

theorem verse_statements_one_per_entry_order_independent:
  "buildUpdateVerseQuery songID verses =
     map (\<lambda>(verseNumber, text).
            (sql_update_verse, [VStr text, VInt (int songID), VInt (int verseNumber)])) verses
   \<and> (distinct (map fst verses) \<longrightarrow>
        distinct (map (\<lambda>q. (snd q ! 1, snd q ! 2)) (buildUpdateVerseQuery songID verses)))
   \<and> (distinct (map fst verses) \<and> mset verses' = mset verses
        \<and> (\<forall>k < song_calls updates + length verses. fault_at s k = None) \<longrightarrow>
        UpdateSong songID (updates\<lparr>Verses := verses'\<rparr>) s
          = UpdateSong songID (updates\<lparr>Verses := verses\<rparr>) s
        \<and> run_verse_queries (buildUpdateVerseQuery songID verses') s
          = run_verse_queries (buildUpdateVerseQuery songID verses) s)"
proof (intro conjI impI)
  show "buildUpdateVerseQuery songID verses =
     map (\<lambda>(verseNumber, text).
            (sql_update_verse, [VStr text, VInt (int songID), VInt (int verseNumber)])) verses"
    by (rule buildUpdateVerseQuery_map)
next
  assume "distinct (map fst verses)"
  then show "distinct (map (\<lambda>q. (snd q ! 1, snd q ! 2)) (buildUpdateVerseQuery songID verses))"
    by (induction verses) (auto simp: buildUpdateVerseQuery_map image_iff)
next
  assume h: "distinct (map fst verses) \<and> mset verses' = mset verses
        \<and> (\<forall>k < song_calls updates + length verses. fault_at s k = None)"
  then have len: "length verses' = length verses"
    by (metis size_mset)
  have perm: "apply_verses songID verses' ls = apply_verses songID verses ls" for ls
    using h by (simp add: apply_verses_permutation)
  have empty: "verses' = [] \<longleftrightarrow> verses = []"
    using len by auto
  have run: "run_verse_queries (buildUpdateVerseQuery songID verses') s'
          = run_verse_queries (buildUpdateVerseQuery songID verses) s'"
    if "\<forall>k < length verses. fault_at s' k = None" for s'
    using that by (simp add: run_verse_queries_all len perm)
  show "run_verse_queries (buildUpdateVerseQuery songID verses') s
          = run_verse_queries (buildUpdateVerseQuery songID verses) s"
    using h by (intro run) simp
  show "UpdateSong songID (updates\<lparr>Verses := verses'\<rparr>) s
          = UpdateSong songID (updates\<lparr>Verses := verses\<rparr>) s"
  proof (cases "no_song_fields updates")
    case True
    with h have "\<forall>k < length verses. fault_at s k = None"
      by (simp add: song_calls_def)
    with True show ?thesis
      by (simp add: UpdateSong_eq empty run)
  next
    case False
    with h have all: "\<forall>k < Suc (length verses). fault_at s k = None"
      by (simp add: song_calls_def)
    then have "\<forall>k < length verses. fault_at s (Suc k) = None" by auto
    then have "run_verse_queries (buildUpdateVerseQuery songID verses') s'
          = run_verse_queries (buildUpdateVerseQuery songID verses) s'"
      if "s' = (advance s)\<lparr>songs := x\<rparr>" for s' x
      using that by (intro run) simp
    moreover from all have "fault_at s 0 = None" by auto
    ultimately show ?thesis
      using False by (simp add: UpdateSong_eq)
  qed
qed

theorem verse_statements_order_witness:
  "distinct (map fst [(1::nat, ''first''), (2, ''second'')])
   \<and> mset [(2::nat, ''second''), (1, ''first'')] = mset [(1, ''first''), (2, ''second'')]
   \<and> UpdateSong 1 (group_patch\<lparr>Verses := [(2, ''second''), (1, ''first'')]\<rparr>) example_backend
       = UpdateSong 1 (group_patch\<lparr>Verses := [(1, ''first''), (2, ''second'')]\<rparr>) example_backend
   \<and> distinct (map (\<lambda>q. (snd q ! 1, snd q ! 2))
                 (buildUpdateVerseQuery 1 [(1, ''first''), (2, ''second'')]))"
  using verse_statements_one_per_entry_order_independent
    [of 1 "[(1, ''first''), (2, ''second'')]" "[(2, ''second''), (1, ''first'')]" group_patch
        example_backend]
  by (simp add: fault_at_def example_backend_def)

text \<open>
  C6. The verse statements run one after the other and outside any transaction. If the
  statement of the entry \<open>(n, t)\<close> fails after the statements of \<open>verses1\<close> before it (and
  the song-level statement, if there is one) have succeeded, \<open>UpdateSong\<close> returns that
  failure, wrapped as "failed to update verse", and the state it leaves holds the
  song-level patch and the updates of \<open>verses1\<close>: nothing is undone, and the entries after
  the failing one are not applied.
\<close>

theorem UpdateSong_verse_failure_keeps_earlier_updates:
  "Verses updates = verses1 @ (n, t) # verses2
   \<and> (\<forall>k < song_calls updates + length verses1. fault_at s k = None)
   \<and> fault_at s (song_calls updates + length verses1) = Some msg \<longrightarrow>
   UpdateSong songID updates s =
     (Some (Wrapped ''failed to update verse: '' (BackendErr msg)),
      (advance_by (Suc (song_calls updates + length verses1)) s)
        \<lparr>songs := patch_songs songID updates (songs s),
         lyrics := apply_verses songID verses1 (lyrics s)\<rparr>)"
proof (intro impI, elim conjE)
  assume verses: "Verses updates = verses1 @ (n, t) # verses2"
    and ok: "\<forall>k < song_calls updates + length verses1. fault_at s k = None"
    and fails: "fault_at s (song_calls updates + length verses1) = Some msg"
  show "UpdateSong songID updates s =
     (Some (Wrapped ''failed to update verse: '' (BackendErr msg)),
      (advance_by (Suc (song_calls updates + length verses1)) s)
        \<lparr>songs := patch_songs songID updates (songs s),
         lyrics := apply_verses songID verses1 (lyrics s)\<rparr>)"
  proof (cases "no_song_fields updates")
    case True
    with ok fails have "\<forall>k < length verses1. fault_at s k = None"
      "fault_at s (length verses1) = Some msg"
      by (simp_all add: song_calls_def)
    then show ?thesis
      using True verses
      by (simp add: UpdateSong_eq run_verse_queries_failure song_calls_def patch_songs_def)
  next
    case False
    with ok fails have first: "fault_at s 0 = None"
      and rest: "\<forall>k < length verses1. fault_at s (Suc k) = None"
      and last: "fault_at s (Suc (length verses1)) = Some msg"
      by (auto simp: song_calls_def)
    let ?s1 = "(advance s)\<lparr>songs := patch_songs songID updates (songs s)\<rparr>"
    from rest last have "\<forall>k < length verses1. fault_at ?s1 k = None"
      "fault_at ?s1 (length verses1) = Some msg"
      by simp_all
    then have "run_verse_queries (buildUpdateVerseQuery songID (verses1 @ (n, t) # verses2)) ?s1 =
     (Some (Wrapped ''failed to update verse: '' (BackendErr msg)),
      (advance_by (Suc (length verses1)) ?s1)\<lparr>lyrics := apply_verses songID verses1 (lyrics ?s1)\<rparr>)"
      by (rule run_verse_queries_failure)
    then show ?thesis
      using False first verses by (simp add: UpdateSong_eq song_calls_def)
  qed
qed

theorem UpdateSong_verse_failure_witness:
  "Verses verse_patch = [(1, ''first'')] @ (2, ''second'') # []
   \<and> fault_at (example_backend\<lparr>faults := [None, Some ''connection reset'']\<rparr>) 0 = None
   \<and> fault_at (example_backend\<lparr>faults := [None, Some ''connection reset'']\<rparr>) 1
       = Some ''connection reset''
   \<and> UpdateSong 1 verse_patch (example_backend\<lparr>faults := [None, Some ''connection reset'']\<rparr>)
       = (Some (Wrapped ''failed to update verse: '' (BackendErr ''connection reset'')),
          example_backend
            \<lparr>lyrics := [\<lparr>l_song_id = 1, l_verse_number = 1, l_text = ''first''\<rparr>,
                        \<lparr>l_song_id = 1, l_verse_number = 2, l_text = ''v2''\<rparr>]\<rparr>)"
  using UpdateSong_verse_failure_keeps_earlier_updates
    [of verse_patch "[(1, ''first'')]" 2 "''second''" "[]"
        "example_backend\<lparr>faults := [None, Some ''connection reset'']\<rparr>" "''connection reset''" 1]
  by (simp add: verse_patch_def example_backend_def fault_at_def song_calls_def no_song_fields_def
      patch_songs_def apply_verses_def set_verse_text_def advance_def less_Suc_eq)

lemma patch_songs_no_match:
  "filter (\<lambda>r. s_id r = int songID) rows = [] \<Longrightarrow> patch_songs songID updates rows = rows"
  by (induction rows) (auto simp: patch_songs_def split: if_splits)

lemma set_verse_text_no_match:
  "filter (\<lambda>l. l_song_id l = sid) ls = [] \<Longrightarrow> set_verse_text sid vn t ls = ls"
  by (induction ls) (auto simp: set_verse_text_def split: if_splits)

lemma apply_verses_no_match:
  "filter (\<lambda>l. l_song_id l = int songID) ls = [] \<Longrightarrow> apply_verses songID verses ls = ls"
  by (induction verses) (auto simp: apply_verses_def set_verse_text_no_match)

text \<open>
  C10. \<open>UpdateSong\<close> never returns \<open>ErrSongNotFound\<close>, bare or wrapped. For an identifier
  that no row of \<open>songs\<close> has, a non-empty patch and a backend that answers every call,
  it returns \<open>nil\<close>; \<open>songs\<close> is unchanged, and so is \<open>lyrics\<close> when no verse row belongs
  to the identifier: the statements matched no row and nobody looked at their counts.
\<close>

theorem UpdateSong_never_not_found:
  "\<not> errors_Is_nil (fst (UpdateSong songID updates s)) ErrSongNotFound
   \<and> (filter (\<lambda>r. s_id r = int songID) (songs s) = []
      \<and> (\<not> no_song_fields updates \<or> Verses updates \<noteq> [])
      \<and> (\<forall>k < song_calls updates + length (Verses updates). fault_at s k = None) \<longrightarrow>
      fst (UpdateSong songID updates s) = None
      \<and> songs (snd (UpdateSong songID updates s)) = songs s
      \<and> (filter (\<lambda>l. l_song_id l = int songID) (lyrics s) = [] \<longrightarrow>
           lyrics (snd (UpdateSong songID updates s)) = lyrics s))"
proof (intro conjI impI)
  show "\<not> errors_Is_nil (fst (UpdateSong songID updates s)) ErrSongNotFound"
  proof (cases "fst (UpdateSong songID updates s)")
    case None
    then show ?thesis by (simp add: errors_Is_nil_def)
  next
    case (Some e)
    from UpdateSong_error [OF Some] show ?thesis
      by (auto simp: Some errors_Is_nil_def)
  qed
next
  assume h: "filter (\<lambda>r. s_id r = int songID) (songs s) = []
      \<and> (\<not> no_song_fields updates \<or> Verses updates \<noteq> [])
      \<and> (\<forall>k < song_calls updates + length (Verses updates). fault_at s k = None)"
  have eq: "UpdateSong songID updates s =
      (None, (advance_by (song_calls updates + length (Verses updates)) s)
               \<lparr>lyrics := apply_verses songID (Verses updates) (lyrics s)\<rparr>)"
  proof (cases "no_song_fields updates")
    case True
    with h have "\<forall>k < length (Verses updates). fault_at s k = None" "Verses updates \<noteq> []"
      by (simp_all add: song_calls_def)
    with True show ?thesis
      by (simp add: UpdateSong_eq run_verse_queries_all song_calls_def)
  next
    case False
    with h have first: "fault_at s 0 = None"
      and rest: "\<forall>k < length (Verses updates). fault_at s (Suc k) = None"
      by (auto simp: song_calls_def)
    let ?s1 = "(advance s)\<lparr>songs := patch_songs songID updates (songs s)\<rparr>"
    from rest have "\<forall>k < length (Verses updates). fault_at ?s1 k = None" by simp
    then have "run_verse_queries (buildUpdateVerseQuery songID (Verses updates)) ?s1 =
       (None, (advance_by (length (Verses updates)) ?s1)
                \<lparr>lyrics := apply_verses songID (Verses updates) (lyrics ?s1)\<rparr>)"
      by (rule run_verse_queries_all)
    then show ?thesis
      using False first h by (simp add: UpdateSong_eq song_calls_def patch_songs_no_match)
  qed
  show "fst (UpdateSong songID updates s) = None" by (simp add: eq)
  show "songs (snd (UpdateSong songID updates s)) = songs s" by (simp add: eq)
  show "lyrics (snd (UpdateSong songID updates s)) = lyrics s"
    if "filter (\<lambda>l. l_song_id l = int songID) (lyrics s) = []"
    using that by (simp add: eq apply_verses_no_match)
qed

theorem UpdateSong_never_not_found_witness:
  "filter (\<lambda>r. s_id r = int 7) (songs example_backend) = []
   \<and> \<not> no_song_fields group_patch
   \<and> fault_at example_backend 0 = None \<and> fault_at example_backend 1 = None
   \<and> fst (UpdateSong 7 group_patch example_backend) = None
   \<and> songs (snd (UpdateSong 7 group_patch example_backend)) = songs example_backend
   \<and> lyrics (snd (UpdateSong 7 group_patch example_backend)) = lyrics example_backend"
  using UpdateSong_never_not_found [of 7 group_patch example_backend]
  by (simp add: group_patch_def example_backend_def fault_at_def song_calls_def no_song_fields_def)

subsection \<open>The three storage types\<close>

lemma ORMPostgresStorage_GetSong_eq:
  "ORMPostgresStorage_GetSong songID s =
    (case fault_at s 0 of
       Some msg \<Rightarrow> ((Some zero_Song, Some (BackendErr msg)), advance s)
     | None \<Rightarrow>
        (case filter (\<lambda>r. s_id r = int songID) (songs s) of
           [] \<Rightarrow> ((Some zero_Song, Some ErrRecordNotFound), advance s)
         | r # rs \<Rightarrow> ((Some (song_of_row r), None), advance s)))"
proof (cases "filter (\<lambda>r. s_id r = int songID) (songs s)")
  case Nil
  then show ?thesis
    by (simp add: ORMPostgresStorage_GetSong_def gorm_First_def next_fault_eq split: option.splits)
next
  case (Cons r rs)
  then have "r \<in> set (filter (\<lambda>r. s_id r = int songID) (songs s))" by simp
  then have "s_id r = int songID" by simp
  with Cons show ?thesis
    by (simp add: ORMPostgresStorage_GetSong_def gorm_First_def next_fault_eq Scan_Song_def
        row_values_def song_of_row_def split: option.splits)
qed

lemma PGXStorage_GetSong_eq:
  "PGXStorage_GetSong songID s =
    (case fault_at s 0 of
       Some msg \<Rightarrow> ((songID, Some (BackendErr msg)), advance s)
     | None \<Rightarrow>
        (case filter (\<lambda>r. s_id r = int songID) (songs s) of
           [] \<Rightarrow> ((songID, Some PgxErrNoRows), advance s)
         | r # rs \<Rightarrow> ((songID, None), advance s)))"
proof (cases "filter (\<lambda>r. s_id r = int songID) (songs s)")
  case Nil
  then show ?thesis
    by (simp add: PGXStorage_GetSong_def pgx_QueryRow_def round_trip_eq run_SelectIdById_def
        Scan_id_def split: option.splits)
next
  case (Cons r rs)
  then have "r \<in> set (filter (\<lambda>r. s_id r = int songID) (songs s))" by simp
  then have "s_id r = int songID" by simp
  with Cons show ?thesis
    by (simp add: PGXStorage_GetSong_def pgx_QueryRow_def round_trip_eq run_SelectIdById_def
        Scan_id_def split: option.splits)
qed

text \<open>
  C9 claims that the three \<open>GetSong\<close> methods return equivalent results. They do not: for
  an identifier without a row, \<open>PostgresStorage.GetSong\<close> returns no record and
  \<open>ErrSongNotFound\<close>, \<open>ORMPostgresStorage.GetSong\<close> returns a (zero) record and \<open>gorm\<close>'s own
  error, and \<open>PGXStorage.GetSong\<close> returns the identifier it was given and \<open>pgx\<close>'s own
  error.
\<close>

theorem GetSong_variants_disagree_on_missing_song:
  "fst (GetSong 2 example_backend) = (None, Some ErrSongNotFound)
   \<and> fst (ORMPostgresStorage_GetSong 2 example_backend) = (Some zero_Song, Some ErrRecordNotFound)
   \<and> fst (PGXStorage_GetSong 2 example_backend) = (2, Some PgxErrNoRows)
   \<and> fst (ORMPostgresStorage_GetSong 2 example_backend) \<noteq> fst (GetSong 2 example_backend)
   \<and> snd (fst (PGXStorage_GetSong 2 example_backend)) \<noteq> snd (fst (GetSong 2 example_backend))"
  by (simp add: GetSong_eq ORMPostgresStorage_GetSong_eq PGXStorage_GetSong_eq fault_at_def
      example_backend_def)

text \<open>
  C9, amended. When a row has the identifier and the backend answers,
  \<open>PostgresStorage.GetSong\<close> and \<open>ORMPostgresStorage.GetSong\<close> return the same record and no
  error, and \<open>PGXStorage.GetSong\<close> returns the record's identifier and no error. When no
  row has the identifier each method returns the not-found error of its own library, and
  only \<open>PostgresStorage.GetSong\<close> returns no record. When the backend fails each returns
  the backend's error, again with no record only from \<open>PostgresStorage.GetSong\<close>.
\<close>

theorem GetSong_variants_agree_on_success_only:
  "(fault_at s 0 = None \<and> filter (\<lambda>r. s_id r = int songID) (songs s) = r # rs \<longrightarrow>
      fst (GetSong songID s) = (Some (song_of_row r), None)
      \<and> fst (ORMPostgresStorage_GetSong songID s) = (Some (song_of_row r), None)
      \<and> fst (PGXStorage_GetSong songID s) = (ID (song_of_row r), None))
   \<and> (fault_at s 0 = None \<and> filter (\<lambda>r. s_id r = int songID) (songs s) = [] \<longrightarrow>
      fst (GetSong songID s) = (None, Some ErrSongNotFound)
      \<and> fst (ORMPostgresStorage_GetSong songID s) = (Some zero_Song, Some ErrRecordNotFound)
      \<and> fst (PGXStorage_GetSong songID s) = (songID, Some PgxErrNoRows))
   \<and> (fault_at s 0 = Some msg \<longrightarrow>
      fst (GetSong songID s) = (None, Some (BackendErr msg))
      \<and> fst (ORMPostgresStorage_GetSong songID s) = (Some zero_Song, Some (BackendErr msg))
      \<and> fst (PGXStorage_GetSong songID s) = (songID, Some (BackendErr msg)))"
proof -
  have "ID (song_of_row r) = songID" if "filter (\<lambda>r. s_id r = int songID) (songs s) = r # rs"
  proof -
    from that have "r \<in> set (filter (\<lambda>r. s_id r = int songID) (songs s))" by simp
    then show ?thesis by (simp add: song_of_row_def)
  qed
  then show ?thesis
    by (simp add: GetSong_eq ORMPostgresStorage_GetSong_eq PGXStorage_GetSong_eq)
qed

theorem GetSong_variants_witness:
  "fst (GetSong 1 example_backend) = fst (ORMPostgresStorage_GetSong 1 example_backend)
   \<and> fst (PGXStorage_GetSong 1 example_backend) = (1, None)
   \<and> fst (GetSong 2 example_backend) = (None, Some ErrSongNotFound)
   \<and> fst (ORMPostgresStorage_GetSong 2 example_backend) = (Some zero_Song, Some ErrRecordNotFound)
   \<and> fst (PGXStorage_GetSong 2 example_backend) = (2, Some PgxErrNoRows)
   \<and> fst (GetSong 1 (example_backend\<lparr>faults := [Some ''connection reset'']\<rparr>))
       = (None, Some (BackendErr ''connection reset''))
   \<and> fst (ORMPostgresStorage_GetSong 1 (example_backend\<lparr>faults := [Some ''connection reset'']\<rparr>))
       = (Some zero_Song, Some (BackendErr ''connection reset''))
   \<and> fst (PGXStorage_GetSong 1 (example_backend\<lparr>faults := [Some ''connection reset'']\<rparr>))
       = (1, Some (BackendErr ''connection reset''))"
proof -
  let ?down = "example_backend\<lparr>faults := [Some ''connection reset'']\<rparr>"
  have found: "fault_at example_backend 0 = None
      \<and> filter (\<lambda>r. s_id r = int 1) (songs example_backend) = hd (songs example_backend) # []"
    by (simp add: example_backend_def fault_at_def)
  have missing: "fault_at example_backend 0 = None
      \<and> filter (\<lambda>r. s_id r = int 2) (songs example_backend) = []"
    by (simp add: example_backend_def fault_at_def)
  have failing: "fault_at ?down 0 = Some ''connection reset''"
    by (simp add: fault_at_def)
  have 1: "ID (song_of_row (hd (songs example_backend))) = 1"
    by (simp add: example_backend_def song_of_row_def)
  from found missing failing
    GetSong_variants_agree_on_success_only
      [where s = example_backend and songID = 1 and r = "hd (songs example_backend)" and rs = "[]"]
    GetSong_variants_agree_on_success_only [where s = example_backend and songID = 2]
    GetSong_variants_agree_on_success_only
      [where s = ?down and songID = 1 and msg = "''connection reset''"]
  show ?thesis by (simp add: 1)
qed

subsection \<open>Transactions\<close>

lemma WithTransaction_eq:
  "WithTransaction fn v s =
    (case fault_at s 0 of
       Some msg \<Rightarrow> (Some (BackendErr msg), v, advance s)
     | None \<Rightarrow>
        (case fn \<lparr>tx_songs = songs s, tx_lyrics = lyrics s\<rparr> v (advance s) of
           (Some err, v2, s2) \<Rightarrow>
             (map_option BackendErr (fault_at s2 0), v2,
              (advance s2)\<lparr>songs := songs s, lyrics := lyrics s\<rparr>)
         | (None, v2, s2) \<Rightarrow>
             (case fault_at s2 0 of
                Some msg \<Rightarrow> (Some (BackendErr msg), v2, (advance s2)\<lparr>songs := songs s, lyrics := lyrics s\<rparr>)
              | None \<Rightarrow> (None, v2, advance s2))))"
  by (simp add: WithTransaction_def db_Begin_def tx_Rollback_def tx_Commit_def next_fault_eq
      restore_def split: option.splits prod.splits)

text \<open>
  C2 says that \<open>WithTransaction\<close> never reports success when the unit of work failed.
  The code does: when the unit of work fails and the rollback succeeds, the variable
  that held the failure holds the rollback's \<open>nil\<close> when it is returned. Here the unit of
  work fails at once and the backend answers \<open>Begin\<close> and \<open>Rollback\<close>.
\<close>

theorem WithTransaction_reports_success_after_failed_unit_of_work:
  "WithTransaction (\<lambda>tx v s. (Some (ErrorString ''unit of work failed''), v, s)) () empty_backend
     = (None, (), empty_backend)"
  by (simp add: WithTransaction_eq fault_at_def empty_backend_def advance_def)

text \<open>
  The other branches of \<open>WithTransaction\<close>: a failed \<open>Begin\<close> is returned and the unit of
  work does not run; after a failed unit of work a failed rollback is returned in place
  of the unit's error; after a successful unit of work a failed commit is returned, and a
  successful commit keeps the unit's writes. Whenever the unit of work fails, the tables
  are those of the start of the transaction.
\<close>

lemma WithTransaction_branches:
  "(fault_at s 0 = Some msg \<longrightarrow>
      WithTransaction fn v s = (Some (BackendErr msg), v, advance s))
   \<and> (fault_at s 0 = None
        \<and> fn \<lparr>tx_songs = songs s, tx_lyrics = lyrics s\<rparr> v (advance s) = (Some err, v2, s2)
        \<and> fault_at s2 0 = Some msg \<longrightarrow>
      WithTransaction fn v s
        = (Some (BackendErr msg), v2, (advance s2)\<lparr>songs := songs s, lyrics := lyrics s\<rparr>))
   \<and> (fault_at s 0 = None
        \<and> fn \<lparr>tx_songs = songs s, tx_lyrics = lyrics s\<rparr> v (advance s) = (None, v2, s2)
        \<and> fault_at s2 0 = Some msg \<longrightarrow>
      WithTransaction fn v s
        = (Some (BackendErr msg), v2, (advance s2)\<lparr>songs := songs s, lyrics := lyrics s\<rparr>))
   \<and> (fault_at s 0 = None
        \<and> fn \<lparr>tx_songs = songs s, tx_lyrics = lyrics s\<rparr> v (advance s) = (None, v2, s2)
        \<and> fault_at s2 0 = None \<longrightarrow>
      WithTransaction fn v s = (None, v2, advance s2))
   \<and> (fault_at s 0 = None
        \<and> fn \<lparr>tx_songs = songs s, tx_lyrics = lyrics s\<rparr> v (advance s) = (Some err, v2, s2) \<longrightarrow>
      songs (snd (snd (WithTransaction fn v s))) = songs s
      \<and> lyrics (snd (snd (WithTransaction fn v s))) = lyrics s)"
  by (simp add: WithTransaction_eq)

lemma WithTransaction_branches_instance:
  "WithTransaction (\<lambda>tx v s. (None, v, s)) () (example_backend\<lparr>faults := [Some ''no connection'']\<rparr>)
     = (Some (BackendErr ''no connection''), (), example_backend)
   \<and> WithTransaction (\<lambda>tx v s. (Some (ErrorString ''unit of work failed''), v, s\<lparr>songs := []\<rparr>)) ()
        (example_backend\<lparr>faults := [None, Some ''rollback failed'']\<rparr>)
     = (Some (BackendErr ''rollback failed''), (), example_backend)
   \<and> WithTransaction (\<lambda>tx v s. (None, v, s\<lparr>songs := []\<rparr>)) ()
        (example_backend\<lparr>faults := [None, Some ''commit failed'']\<rparr>)
     = (Some (BackendErr ''commit failed''), (), example_backend)
   \<and> WithTransaction (\<lambda>tx v s. (None, v, s\<lparr>songs := []\<rparr>)) () example_backend
     = (None, (), example_backend\<lparr>songs := []\<rparr>)"
proof -
  let ?ok = "\<lambda>(tx::Tx) (v::unit) (s::backend). (None :: error option, v, s\<lparr>songs := []\<rparr>)"
  let ?idle = "\<lambda>(tx::Tx) (v::unit) (s::backend). (None :: error option, v, s)"
  let ?bad = "\<lambda>(tx::Tx) (v::unit) (s::backend).
                (Some (ErrorString ''unit of work failed''), v, s\<lparr>songs := []\<rparr>)"
  let ?s1 = "example_backend\<lparr>faults := [Some ''no connection'']\<rparr>"
  let ?s2 = "example_backend\<lparr>faults := [None, Some ''rollback failed'']\<rparr>"
  let ?s3 = "example_backend\<lparr>faults := [None, Some ''commit failed'']\<rparr>"
  have 1: "fault_at ?s1 0 = Some ''no connection''" "advance ?s1 = example_backend"
    by (simp_all add: fault_at_def advance_def example_backend_def)
  have 2: "fault_at ?s2 0 = None"
    "?bad \<lparr>tx_songs = songs ?s2, tx_lyrics = lyrics ?s2\<rparr> () (advance ?s2)
       = (Some (ErrorString ''unit of work failed''), (), (advance ?s2)\<lparr>songs := []\<rparr>)"
    "fault_at ((advance ?s2)\<lparr>songs := []\<rparr>) 0 = Some ''rollback failed''"
    "(advance ((advance ?s2)\<lparr>songs := []\<rparr>))\<lparr>songs := songs ?s2, lyrics := lyrics ?s2\<rparr>
       = example_backend"
    by (simp_all add: fault_at_def advance_def example_backend_def)
  have 3: "fault_at ?s3 0 = None"
    "?ok \<lparr>tx_songs = songs ?s3, tx_lyrics = lyrics ?s3\<rparr> () (advance ?s3)
       = (None, (), (advance ?s3)\<lparr>songs := []\<rparr>)"
    "fault_at ((advance ?s3)\<lparr>songs := []\<rparr>) 0 = Some ''commit failed''"
    "(advance ((advance ?s3)\<lparr>songs := []\<rparr>))\<lparr>songs := songs ?s3, lyrics := lyrics ?s3\<rparr>
       = example_backend"
    by (simp_all add: fault_at_def advance_def example_backend_def)
  have 4: "fault_at example_backend 0 = None"
    "?ok \<lparr>tx_songs = songs example_backend, tx_lyrics = lyrics example_backend\<rparr> ()
        (advance example_backend) = (None, (), (advance example_backend)\<lparr>songs := []\<rparr>)"
    "fault_at ((advance example_backend)\<lparr>songs := []\<rparr>) 0 = None"
    "advance ((advance example_backend)\<lparr>songs := []\<rparr>) = example_backend\<lparr>songs := []\<rparr>"
    by (simp_all add: fault_at_def advance_def example_backend_def)
  from 1 WithTransaction_branches [of ?s1 "''no connection''" ?idle "()"]
  have a: "WithTransaction ?idle () ?s1 = (Some (BackendErr ''no connection''), (), example_backend)"
    by simp
  from 2 WithTransaction_branches [of ?s2 "''rollback failed''" ?bad "()"
      "ErrorString ''unit of work failed''" "()" "(advance ?s2)\<lparr>songs := []\<rparr>"]
  have b: "WithTransaction ?bad () ?s2 = (Some (BackendErr ''rollback failed''), (), example_backend)"
    by simp
  from 3 WithTransaction_branches [of ?s3 "''commit failed''" ?ok "()" _ "()"
      "(advance ?s3)\<lparr>songs := []\<rparr>"]
  have c: "WithTransaction ?ok () ?s3 = (Some (BackendErr ''commit failed''), (), example_backend)"
    by simp
  from 4 WithTransaction_branches [of example_backend _ ?ok "()" _ "()"
      "(advance example_backend)\<lparr>songs := []\<rparr>"]
  have d: "WithTransaction ?ok () example_backend = (None, (), example_backend\<lparr>songs := []\<rparr>)"
    by simp
  from a b c d show ?thesis by simp
qed

subsection \<open>Adding a song\<close>

lemma tx_QueryRow_insert_song:
  "tx_QueryRow tx sql_insert_song
     [VStr (Group song), VStr (Name song), VStr (Link song), VTime (ReleaseDate song)] s =
    (case fault_at s 0 of
       Some msg \<Rightarrow> (Inl (BackendErr msg), advance s)
     | None \<Rightarrow>
        (Inr [VInt (int (id_seq s) + 1)],
         (advance s)\<lparr>songs := songs s @ [new_song_row song s], id_seq := id_seq s + 1\<rparr>))"
  by (simp add: tx_QueryRow_def db_QueryRow_def round_trip_eq run_InsertSong_def new_song_row_def
      Let_def split: option.splits)

lemma tx_Exec_insert_lyrics:
  "tx_Exec tx sql_insert_lyrics [VInt a, VInt b, VStr v] s =
    (case fault_at s 0 of
       Some msg \<Rightarrow> (Inl (BackendErr msg), advance s)
     | None \<Rightarrow>
        (Inr 1, (advance s)\<lparr>lyrics := lyrics s @ [\<lparr>l_song_id = a, l_verse_number = b, l_text = v\<rparr>]\<rparr>))"
  by (simp add: tx_Exec_def db_Exec_def round_trip_eq run_InsertLyrics_def split: option.splits)

lemma insert_verses_effect:
  "insert_verses tx songID i verses s = (e, s2) \<Longrightarrow>
     songs s2 = songs s \<and> id_seq s2 = id_seq s \<and> clock s2 = clock s
     \<and> (e = None \<longrightarrow> lyrics s2 = lyrics s @ verse_rows songID i verses)"
proof (induction verses arbitrary: s i)
  case Nil
  then show ?case by auto
next
  case (Cons verse verses)
  show ?case
  proof (cases "fault_at s 0")
    case None
    let ?s1 = "(advance s)\<lparr>lyrics := lyrics s @ [\<lparr>l_song_id = int songID, l_verse_number = i + 1, l_text = verse\<rparr>]\<rparr>"
    from Cons.prems None have "insert_verses tx songID (i + 1) verses ?s1 = (e, s2)"
      by (simp add: tx_Exec_insert_lyrics)
    from Cons.IH [OF this] show ?thesis by simp
  next
    case (Some msg)
    with Cons.prems show ?thesis by (auto simp: tx_Exec_insert_lyrics)
  qed
qed

lemma insert_verses_all:
  "\<forall>k < length verses. fault_at s k = None \<Longrightarrow>
   insert_verses tx songID i verses s =
     (None, (advance_by (length verses) s)\<lparr>lyrics := lyrics s @ verse_rows songID i verses\<rparr>)"
proof (induction verses arbitrary: s i)
  case Nil
  then show ?case by simp
next
  case (Cons verse verses)
  from Cons.prems have first: "fault_at s 0 = None" by auto
  from Cons.prems have rest: "\<forall>k < length verses. fault_at s (Suc k) = None" by auto
  show ?case
    using first rest by (simp add: tx_Exec_insert_lyrics Cons.IH)
qed

lemma verse_rows_numbers:
  "map l_verse_number (verse_rows songID i verses) = map (\<lambda>k. i + int k) [1..<Suc (length verses)]"
proof (induction verses arbitrary: i)
  case Nil
  show ?case by simp
next
  case (Cons verse verses)
  have "map (\<lambda>k. i + int k) [1..<Suc (Suc (length verses))]
          = (i + 1) # map (\<lambda>k. i + int k) (map Suc [1..<Suc (length verses)])"
    by (simp add: upt_conv_Cons map_Suc_upt del: upt_Suc)
  then show ?case by (simp add: Cons.IH comp_def add.assoc del: upt_Suc)
qed

lemma verse_rows_texts:
  "map l_text (verse_rows songID i verses) = verses
   \<and> (\<forall>l \<in> set (verse_rows songID i verses). l_song_id l = int songID)"
  by (induction verses arbitrary: i) auto

lemma AddSong_fn_eq:
  "AddSong_fn song verses tx songID s =
    (case fault_at s 0 of
       Some msg \<Rightarrow> (Some (BackendErr msg), songID, advance s)
     | None \<Rightarrow>
        (case insert_verses tx (id_seq s + 1) 0 verses
                ((advance s)\<lparr>songs := songs s @ [new_song_row song s], id_seq := id_seq s + 1\<rparr>) of
           (err, s2) \<Rightarrow> (err, id_seq s + 1, s2)))"
proof -
  have "nat (int (id_seq s) + 1) = id_seq s + 1" by simp
  then show ?thesis
    by (simp add: AddSong_fn_def tx_QueryRow_insert_song Scan_id_def split: option.splits)
qed

text \<open>
  C1 says that \<open>AddSong\<close> either creates all rows and returns the identifier or creates
  none and returns an error. On a backend on which the insert of the first verse fails and
  the rollback succeeds, \<open>AddSong\<close> creates no row and returns the identifier 1 of the
  rolled-back song with a \<open>nil\<close> error: the success that \<open>WithTransaction\<close> reports.
\<close>

theorem AddSong_returns_identifier_of_rolled_back_song:
  "AddSong example_song [''v1'', ''v2''] (empty_backend\<lparr>faults := [None, None, Some ''connection reset'']\<rparr>)
     = ((1, None), empty_backend\<lparr>id_seq := 1\<rparr>)"
  by (simp add: AddSong_def WithTransaction_eq AddSong_fn_def tx_QueryRow_def tx_Exec_def
      db_QueryRow_def db_Exec_def round_trip_eq run_InsertSong_def run_InsertLyrics_def
      Scan_id_def fault_at_def empty_backend_def example_song_def advance_def)

text \<open>
  What \<open>AddSong\<close> does to the tables is all or nothing, whatever fails: either both
  tables are as before, or the song was returned without error and the tables hold its row
  and one row per verse, numbered 1 to the number of verses in the order given. An error
  is returned with the identifier 0 and unchanged tables, and on a backend that answers
  every call all rows are created.
\<close>

lemma AddSong_tables_all_or_nothing:
  "((songs (snd (AddSong song verses s)) = songs s
       \<and> lyrics (snd (AddSong song verses s)) = lyrics s)
     \<or> (fst (AddSong song verses s) = (id_seq s + 1, None)
        \<and> songs (snd (AddSong song verses s)) = songs s @ [new_song_row song s]
        \<and> lyrics (snd (AddSong song verses s))
            = lyrics s @ verse_rows (id_seq s + 1) 0 verses))
   \<and> (snd (fst (AddSong song verses s)) \<noteq> None \<longrightarrow>
        fst (fst (AddSong song verses s)) = 0
        \<and> songs (snd (AddSong song verses s)) = songs s
        \<and> lyrics (snd (AddSong song verses s)) = lyrics s)
   \<and> ((\<forall>k < length verses + 3. fault_at s k = None) \<longrightarrow>
        fst (AddSong song verses s) = (id_seq s + 1, None)
        \<and> songs (snd (AddSong song verses s)) = songs s @ [new_song_row song s]
        \<and> lyrics (snd (AddSong song verses s))
            = lyrics s @ verse_rows (id_seq s + 1) 0 verses)
   \<and> map l_verse_number (verse_rows (id_seq s + 1) 0 verses) = map int [1..<Suc (length verses)]
   \<and> map l_text (verse_rows (id_seq s + 1) 0 verses) = verses"
proof -
  let ?s1 = "(advance (advance s))\<lparr>songs := songs s @ [new_song_row song (advance s)],
                                   id_seq := id_seq s + 1\<rparr>"
  obtain err s2 where run: "insert_verses \<lparr>tx_songs = songs s, tx_lyrics = lyrics s\<rparr>
      (id_seq s + 1) 0 verses ?s1 = (err, s2)"
    by (cases "insert_verses \<lparr>tx_songs = songs s, tx_lyrics = lyrics s\<rparr> (id_seq s + 1) 0 verses ?s1")
  from insert_verses_effect [OF run]
  have eff: "songs s2 = songs s @ [new_song_row song s]"
    "err = None \<longrightarrow> lyrics s2 = lyrics s @ verse_rows (id_seq s + 1) 0 verses"
    by (simp_all add: new_song_row_def)
  have row: "new_song_row song (advance s) = new_song_row song s"
    by (simp add: new_song_row_def)
  have general: "(songs (snd (AddSong song verses s)) = songs s
       \<and> lyrics (snd (AddSong song verses s)) = lyrics s)
     \<or> (fst (AddSong song verses s) = (id_seq s + 1, None)
        \<and> songs (snd (AddSong song verses s)) = songs s @ [new_song_row song s]
        \<and> lyrics (snd (AddSong song verses s))
            = lyrics s @ verse_rows (id_seq s + 1) 0 verses)"
    using run eff
    by (cases "fault_at s 0"; cases "fault_at s 1"; cases err; cases "fault_at s2 0")
       (simp_all add: AddSong_def WithTransaction_eq AddSong_fn_eq row split: option.splits)
  have failure: "snd (fst (AddSong song verses s)) \<noteq> None \<longrightarrow>
        fst (fst (AddSong song verses s)) = 0
        \<and> songs (snd (AddSong song verses s)) = songs s
        \<and> lyrics (snd (AddSong song verses s)) = lyrics s"
    using run eff
    by (cases "fault_at s 0"; cases "fault_at s 1"; cases err; cases "fault_at s2 0")
       (simp_all add: AddSong_def WithTransaction_eq AddSong_fn_eq row split: option.splits)
  have success: "fst (AddSong song verses s) = (id_seq s + 1, None)
        \<and> songs (snd (AddSong song verses s)) = songs s @ [new_song_row song s]
        \<and> lyrics (snd (AddSong song verses s))
            = lyrics s @ verse_rows (id_seq s + 1) 0 verses"
    if ok: "\<forall>k < length verses + 3. fault_at s k = None"
  proof -
    from ok have f0: "fault_at s 0 = None" and f1: "fault_at s 1 = None"
      and rest: "\<forall>k < length verses. fault_at s (Suc (Suc k)) = None"
      and commit: "fault_at s (Suc (Suc (length verses))) = None"
      by auto
    from rest have "\<forall>k < length verses. fault_at ?s1 k = None" by simp
    from insert_verses_all [OF this] run
    have "err = None" "s2 = (advance_by (length verses) ?s1)
        \<lparr>lyrics := lyrics ?s1 @ verse_rows (id_seq s + 1) 0 verses\<rparr>"
      by simp_all
    with commit have "fault_at s2 0 = None" by simp
    with run eff \<open>err = None\<close> f0 f1 show ?thesis
      by (simp add: AddSong_def WithTransaction_eq AddSong_fn_eq row)
  qed
  have numbers: "map l_verse_number (verse_rows (id_seq s + 1) 0 verses)
      = map int [1..<Suc (length verses)]"
    by (simp add: verse_rows_numbers)
  have texts: "map l_text (verse_rows (id_seq s + 1) 0 verses) = verses"
    by (simp add: verse_rows_texts)
  from general failure success numbers texts show ?thesis by blast
qed

lemma AddSong_tables_instance:
  "AddSong example_song [''v1'', ''v2''] empty_backend
     = ((1, None),
        empty_backend
          \<lparr>songs := [\<lparr>s_id = 1, s_group_name = ''A'', s_name = ''B'', s_link = ''http://x'',
                      s_release_date = Time ''2006-07-16'', s_inserted_at = Time ''2024-01-01''\<rparr>],
           lyrics := [\<lparr>l_song_id = 1, l_verse_number = 1, l_text = ''v1''\<rparr>,
                      \<lparr>l_song_id = 1, l_verse_number = 2, l_text = ''v2''\<rparr>],
           id_seq := 1\<rparr>)
   \<and> fst (AddSong example_song [''v1'', ''v2'']
            (empty_backend\<lparr>faults := [None, None, None, None, Some ''commit failed'']\<rparr>))
       = (0, Some (BackendErr ''commit failed''))
   \<and> songs (snd (AddSong example_song [''v1'', ''v2'']
            (empty_backend\<lparr>faults := [None, None, None, None, Some ''commit failed'']\<rparr>))) = []
   \<and> lyrics (snd (AddSong example_song [''v1'', ''v2'']
            (empty_backend\<lparr>faults := [None, None, None, None, Some ''commit failed'']\<rparr>))) = []"
proof -
  let ?down = "empty_backend\<lparr>faults := [None, None, None, None, Some ''commit failed'']\<rparr>"
  have ok: "\<forall>k < length [''v1'', ''v2''] + 3. fault_at empty_backend k = None"
    by (simp add: fault_at_def empty_backend_def)
  have state: "snd (AddSong example_song [''v1'', ''v2''] empty_backend)
      = empty_backend\<lparr>songs := songs (snd (AddSong example_song [''v1'', ''v2''] empty_backend)),
          lyrics := lyrics (snd (AddSong example_song [''v1'', ''v2''] empty_backend)),
          id_seq := 1\<rparr>"
    by (simp add: AddSong_def WithTransaction_eq AddSong_fn_eq tx_Exec_insert_lyrics fault_at_def
        empty_backend_def advance_def)
  have failed: "snd (fst (AddSong example_song [''v1'', ''v2''] ?down)) \<noteq> None"
    "fst (AddSong example_song [''v1'', ''v2''] ?down) = (0, Some (BackendErr ''commit failed''))"
    by (simp_all add: AddSong_def WithTransaction_eq AddSong_fn_eq tx_Exec_insert_lyrics fault_at_def
        empty_backend_def advance_def)
  from ok AddSong_tables_all_or_nothing [of example_song "[''v1'', ''v2'']" empty_backend]
  have "fst (AddSong example_song [''v1'', ''v2''] empty_backend) = (1, None)"
    "songs (snd (AddSong example_song [''v1'', ''v2''] empty_backend))
       = [new_song_row example_song empty_backend]"
    "lyrics (snd (AddSong example_song [''v1'', ''v2''] empty_backend))
       = verse_rows 1 0 [''v1'', ''v2'']"
    by (simp_all add: empty_backend_def)
  then have first: "AddSong example_song [''v1'', ''v2''] empty_backend
     = ((1, None),
        empty_backend
          \<lparr>songs := [\<lparr>s_id = 1, s_group_name = ''A'', s_name = ''B'', s_link = ''http://x'',
                      s_release_date = Time ''2006-07-16'', s_inserted_at = Time ''2024-01-01''\<rparr>],
           lyrics := [\<lparr>l_song_id = 1, l_verse_number = 1, l_text = ''v1''\<rparr>,
                      \<lparr>l_song_id = 1, l_verse_number = 2, l_text = ''v2''\<rparr>],
           id_seq := 1\<rparr>)"
    using state
    by (simp add: prod_eq_iff new_song_row_def example_song_def empty_backend_def)
  from failed AddSong_tables_all_or_nothing [of example_song "[''v1'', ''v2'']" ?down]
  have "songs (snd (AddSong example_song [''v1'', ''v2''] ?down)) = []"
    "lyrics (snd (AddSong example_song [''v1'', ''v2''] ?down)) = []"
    by (simp_all add: empty_backend_def)
  with first failed show ?thesis by simp
qed

end
